theory Spec2Isabelle
  imports Complex_Main
begin

section \<open>Python payloads and runtime objects\<close>

text \<open>
  The payload of a \<^verbatim>\<open>RunTimeObject\<close> is a Python value: an int, a float, a str or a
  bool. Python ints are unbounded (\<^typ>\<open>int\<close>). Python floats are idealised as
  \<^typ>\<open>real\<close>: rounding, overflow, infinities and NaN are not modelled. A str is a list of
  characters, one \<^typ>\<open>char\<close> per code point (code points up to 255).
\<close>

datatype pyval = PInt int | PFloat real | PStr string | PBool bool

datatype label = LNumber | LString | LBoolean | LIdentifier | LOperator | LNull

text \<open>\<^verbatim>\<open>RunTimeObject(label, value, value_type=None)\<close>, read through its
  attributes \<^verbatim>\<open>label\<close>, \<^verbatim>\<open>value\<close> and \<^verbatim>\<open>type\<close>.\<close>

record rtobj =
  label :: label
  val :: pyval
  value_type :: "string option"

definition RunTimeObject :: "label \<Rightarrow> pyval \<Rightarrow> rtobj" where
  "RunTimeObject l v = \<lparr>label = l, val = v, value_type = None\<rparr>"

text \<open>Python's truth value of a payload (\<^verbatim>\<open>if condition.value\<close>, \<^verbatim>\<open>not x\<close>,
  \<^verbatim>\<open>x or y\<close>).\<close>

fun truthy :: "pyval \<Rightarrow> bool" where
  "truthy (PInt i) = (i \<noteq> 0)"
| "truthy (PFloat r) = (r \<noteq> 0)"
| "truthy (PStr s) = (s \<noteq> [])"
| "truthy (PBool b) = b"

text \<open>\<^verbatim>\<open>isinstance(v, int)\<close>: ints and bools (bool is a subclass of int), with the
  integer they stand for.\<close>

fun int_of :: "pyval \<Rightarrow> int option" where
  "int_of (PInt i) = Some i"
| "int_of (PBool b) = Some (if b then 1 else 0)"
| "int_of (PFloat r) = None"
| "int_of (PStr s) = None"

fun real_of :: "pyval \<Rightarrow> real option" where
  "real_of (PInt i) = Some (of_int i)"
| "real_of (PBool b) = Some (if b then 1 else 0)"
| "real_of (PFloat r) = Some r"
| "real_of (PStr s) = None"

text \<open>Binary arithmetic on numbers: int with int stays int, a float on either side gives a
  float; \<open>None\<close> is Python's TypeError.\<close>

definition py_arith :: "(int \<Rightarrow> int \<Rightarrow> int) \<Rightarrow> (real \<Rightarrow> real \<Rightarrow> real) \<Rightarrow> pyval \<Rightarrow> pyval \<Rightarrow> pyval option" where
  "py_arith fi fr a b =
     (case (int_of a, int_of b) of
        (Some x, Some y) \<Rightarrow> Some (PInt (fi x y))
      | _ \<Rightarrow> (case (real_of a, real_of b) of
                (Some x, Some y) \<Rightarrow> Some (PFloat (fr x y))
              | _ \<Rightarrow> None))"

text \<open>\<^verbatim>\<open>s * n\<close>: the string repeated, empty for \<open>n \<le> 0\<close>.\<close>

definition str_repeat :: "string \<Rightarrow> int \<Rightarrow> string" where
  "str_repeat s n = concat (replicate (nat n) s)"

fun py_add :: "pyval \<Rightarrow> pyval \<Rightarrow> pyval option" where
  "py_add (PStr s) (PStr t) = Some (PStr (s @ t))"
| "py_add a b = py_arith (+) (+) a b"

definition py_sub :: "pyval \<Rightarrow> pyval \<Rightarrow> pyval option" where
  "py_sub a b = py_arith (-) (-) a b"

fun py_mul :: "pyval \<Rightarrow> pyval \<Rightarrow> pyval option" where
  "py_mul (PStr s) (PStr t) = None"
| "py_mul (PStr s) b = map_option (\<lambda>n. PStr (str_repeat s n)) (int_of b)"
| "py_mul a (PStr t) = map_option (\<lambda>n. PStr (str_repeat t n)) (int_of a)"
| "py_mul a b = py_arith (*) (*) a b"

text \<open>\<^verbatim>\<open>a / b\<close> is true division: the result is a float also for two ints. \<open>None\<close> is
  a TypeError or a ZeroDivisionError.\<close>

definition py_truediv :: "pyval \<Rightarrow> pyval \<Rightarrow> pyval option" where
  "py_truediv a b =
     (case (real_of a, real_of b) of
        (Some x, Some y) \<Rightarrow> (if y = 0 then None else Some (PFloat (x / y)))
      | _ \<Rightarrow> None)"

text \<open>\<^verbatim>\<open>v != 0\<close>: a str is never equal to 0.\<close>

definition py_ne_zero :: "pyval \<Rightarrow> bool" where
  "py_ne_zero v = (case real_of v of Some x \<Rightarrow> x \<noteq> 0 | None \<Rightarrow> True)"

fun py_neg :: "pyval \<Rightarrow> pyval option" where
  "py_neg (PInt i) = Some (PInt (- i))"
| "py_neg (PBool b) = Some (PInt (- (if b then 1 else 0)))"
| "py_neg (PFloat r) = Some (PFloat (- r))"
| "py_neg (PStr s) = None"

definition py_or :: "pyval \<Rightarrow> pyval \<Rightarrow> pyval" where
  "py_or a b = (if truthy a then a else b)"

definition py_and :: "pyval \<Rightarrow> pyval \<Rightarrow> pyval" where
  "py_and a b = (if truthy a then b else a)"

text \<open>\<^verbatim>\<open>int(v)\<close> for a number: a float is truncated towards zero. \<^verbatim>\<open>int(s)\<close> of a
  str parses it; the parser is not modelled (\<open>None\<close>).\<close>

fun py_int :: "pyval \<Rightarrow> int option" where
  "py_int (PInt i) = Some i"
| "py_int (PBool b) = Some (if b then 1 else 0)"
| "py_int (PFloat r) = Some (if 0 \<le> r then \<lfloor>r\<rfloor> else \<lceil>r\<rceil>)"
| "py_int (PStr s) = None"

text \<open>The six relational operators on a linear order.\<close>

definition rel_op :: "string \<Rightarrow> 'a::linorder \<Rightarrow> 'a \<Rightarrow> bool option" where
  "rel_op op a b =
     (if op = ''=='' then Some (a = b)
      else if op = ''!='' then Some (a \<noteq> b)
      else if op = ''<'' then Some (a < b)
      else if op = ''>'' then Some (a > b)
      else if op = ''<='' then Some (a \<le> b)
      else if op = ''>='' then Some (a \<ge> b)
      else None)"

text \<open>Python compares strings by code point, lexicographically.\<close>

fun str_less :: "string \<Rightarrow> string \<Rightarrow> bool" where
  "str_less [] [] = False"
| "str_less [] (d # t) = True"
| "str_less (c # s) [] = False"
| "str_less (c # s) (d # t) =
     ((of_char c :: nat) < of_char d \<or> (c = d \<and> str_less s t))"

definition rel_op_str :: "string \<Rightarrow> string \<Rightarrow> string \<Rightarrow> bool option" where
  "rel_op_str op a b =
     (if op = ''=='' then Some (a = b)
      else if op = ''!='' then Some (a \<noteq> b)
      else if op = ''<'' then Some (str_less a b)
      else if op = ''>'' then Some (str_less b a)
      else if op = ''<='' then Some (a = b \<or> str_less a b)
      else if op = ''>='' then Some (a = b \<or> str_less b a)
      else None)"

text \<open>A string that \<^verbatim>\<open>f'"{s}"'\<close> turns into the Python literal of itself: no quote, no
  backslash, no line break.\<close>

definition plain_str :: "string \<Rightarrow> bool" where
  "plain_str s = list_all (\<lambda>c. c \<noteq> CHR 0x22 \<and> c \<noteq> CHR 0x5C \<and> c \<noteq> CHR 0x0A \<and> c \<noteq> CHR 0x0D) s"


section \<open>The AST (\<^verbatim>\<open>core/ASTNodes.py\<close>)\<close>

text \<open>
  One constructor per node class the interpreter has a \<^verbatim>\<open>visit_<label>\<close> method for.
  The first field of every constructor is the identity of the node object: the visit cache
  is keyed by it. An attribute that may be \<^verbatim>\<open>None\<close> is an option. The else-if
  statements of an if node are never visited themselves, only their \<^verbatim>\<open>expr\<close> and
  \<^verbatim>\<open>body\<close> are read: they are pairs. Source spans are left out.
\<close>

datatype node =
    Program nat bool "node list" "node option"
  | FuncDef nat string "node option" node
  | Body nat "node list"
  | Return nat "node option"
  | Break nat
  | Continue nat
  | Args nat "node list"
  | While nat node "node option"
  | For nat string node node "node option"
  | If nat node "node option" "(node \<times> node option) list" "node option"
  | Assignment nat node node
  | ArrayDef nat string "node option" "node list option"
  | ArrayAccess nat string node
  | ArrayUpdate nat string node node
  | Call nat string "node option"
  | Input nat string
  | Print nat node bool
  | PostfixExpr nat node "string option"
  | Expr nat node "string option" "node option"
  | SimpleExpr nat node "string option" "node option"
  | Term nat node "string option" "node option"
  | Factor nat node "node option"
  | Operator nat string
  | Identifier nat string
  | NumericLiteral nat pyval
  | StringLiteral nat string
  | BooleanLiteral nat bool

fun nid :: "node \<Rightarrow> nat" where
  "nid (Program i eof fs b) = i"
| "nid (FuncDef i f a b) = i"
| "nid (Body i ss) = i"
| "nid (Return i e) = i"
| "nid (Break i) = i"
| "nid (Continue i) = i"
| "nid (Args i cs) = i"
| "nid (While i e b) = i"
| "nid (For i x s e b) = i"
| "nid (If i e b eis eb) = i"
| "nid (Assignment i l r) = i"
| "nid (ArrayDef i a sz vs) = i"
| "nid (ArrayAccess i a ix) = i"
| "nid (ArrayUpdate i a ix v) = i"
| "nid (Call i f a) = i"
| "nid (Input i m) = i"
| "nid (Print i a nl) = i"
| "nid (PostfixExpr i l op) = i"
| "nid (Expr i l op r) = i"
| "nid (SimpleExpr i l op r) = i"
| "nid (Term i l op r) = i"
| "nid (Factor i l r) = i"
| "nid (Operator i v) = i"
| "nid (Identifier i v) = i"
| "nid (NumericLiteral i v) = i"
| "nid (StringLiteral i v) = i"
| "nid (BooleanLiteral i v) = i"

text \<open>\<^verbatim>\<open>stmt.label == "return"\<close>.\<close>

fun is_return :: "node \<Rightarrow> bool" where
  "is_return (Return i e) = True"
| "is_return n = False"

text \<open>The bound method \<^verbatim>\<open>getattr(self, f"visit_{node.label}", self.generic_visit)\<close>
  finds: it depends on the label of the node only, and every node class above has its
  method.\<close>

datatype handler =
    H_program | H_func_def | H_body | H_return | H_break | H_continue | H_args
  | H_while | H_for | H_if | H_assignment | H_array_def | H_array_access
  | H_array_update | H_call | H_input | H_print | H_postfix_expr | H_expr
  | H_simple_expr | H_term | H_factor | H_operator | H_identifier
  | H_numeric_literal | H_string_literal | H_boolean_literal

fun visit_method :: "node \<Rightarrow> handler" where
  "visit_method (Program i eof fs b) = H_program"
| "visit_method (FuncDef i f a b) = H_func_def"
| "visit_method (Body i ss) = H_body"
| "visit_method (Return i e) = H_return"
| "visit_method (Break i) = H_break"
| "visit_method (Continue i) = H_continue"
| "visit_method (Args i cs) = H_args"
| "visit_method (While i e b) = H_while"
| "visit_method (For i x s e b) = H_for"
| "visit_method (If i e b eis eb) = H_if"
| "visit_method (Assignment i l r) = H_assignment"
| "visit_method (ArrayDef i a sz vs) = H_array_def"
| "visit_method (ArrayAccess i a ix) = H_array_access"
| "visit_method (ArrayUpdate i a ix v) = H_array_update"
| "visit_method (Call i f a) = H_call"
| "visit_method (Input i m) = H_input"
| "visit_method (Print i a nl) = H_print"
| "visit_method (PostfixExpr i l op) = H_postfix_expr"
| "visit_method (Expr i l op r) = H_expr"
| "visit_method (SimpleExpr i l op r) = H_simple_expr"
| "visit_method (Term i l op r) = H_term"
| "visit_method (Factor i l r) = H_factor"
| "visit_method (Operator i v) = H_operator"
| "visit_method (Identifier i v) = H_identifier"
| "visit_method (NumericLiteral i v) = H_numeric_literal"
| "visit_method (StringLiteral i v) = H_string_literal"
| "visit_method (BooleanLiteral i v) = H_boolean_literal"

section \<open>Results, exceptions, symbols and the interpreter state\<close>

text \<open>What a visit method returns: \<^verbatim>\<open>None\<close>, a reference to a
  \<^verbatim>\<open>RunTimeObject\<close> (its address in the heap), or the Python list that
  \<^verbatim>\<open>visit_args\<close> builds.\<close>

datatype res = RNone | RObj nat | RList "res list"

datatype error_type = RUNTIME | TYPE_ERROR | RECURSION | NAME_NOT_FOUND

text \<open>\<^verbatim>\<open>ErrorType.TYPE\<close> is written \<open>TYPE_ERROR\<close>. \<^verbatim>\<open>InterpreterError\<close> (positions left out), the \<^verbatim>\<open>RecursionError\<close> that
  \<^verbatim>\<open>visit\<close> raises, and every other Python exception (by its class name), which
  \<^verbatim>\<open>interpret\<close> does not catch.\<close>

datatype exn = InterpreterError error_type string | RecursionError | HostError string

record array_symbol =
  declared_size :: pyval
  vals :: "res list"

record function_symbol =
  params :: "string list"
  body :: node

record environment =
  env_name :: string
  level :: int
  parent :: "nat option"
  variables :: "(string \<times> res) list"
  arrays :: "(string \<times> array_symbol) list"
  funcs :: "(string \<times> function_symbol) list"

text \<open>The key that \<^verbatim>\<open>Environment.hash()\<close> gives the call cache: the scope name, the
  level and the bindings with their values.\<close>

datatype fval = FNone | FObj label pyval | FList "fval list"

type_synonym fingerprint = "string \<times> int \<times> (string \<times> fval) list"

datatype out = Out pyval | Sep | Newline | Prompt string

text \<open>
  The state of the interpreter object and of what it reaches: the heap of runtime objects
  and the environments (both by address, since the code shares and mutates them), the
  three control-flow flags, the two counters, the two kinds of entries of
  \<^verbatim>\<open>cache_mem\<close>, and the three streams.
\<close>

record state =
  heap :: "nat \<Rightarrow> rtobj"
  next_obj :: nat
  envs :: "nat \<Rightarrow> environment"
  next_env :: nat
  current_env :: "nat option"
  conditional_flag :: bool
  break_flag :: bool
  continue_flag :: bool
  visitor_depth :: int
  recursion_count :: int
  node_cache :: "nat \<Rightarrow> handler option"
  call_cache :: "fingerprint \<Rightarrow> res option"
  stdin :: "string list"
  stdout :: "out list"
  stderr :: "exn list"

text \<open>The outcome of running a piece of the interpreter: it returns a value in a new
  state, it raises in a new state, the model ran out of fuel, or the run left what the
  model covers.\<close>

datatype 'a outcome = Done 'a state | Raise exn state | OutOfFuel | Unmodelled

definition and_then :: "'a outcome \<Rightarrow> ('a \<Rightarrow> state \<Rightarrow> 'b outcome) \<Rightarrow> 'b outcome" where
  "and_then m f =
     (case m of Done v st \<Rightarrow> f v st | Raise e st \<Rightarrow> Raise e st
      | OutOfFuel \<Rightarrow> OutOfFuel | Unmodelled \<Rightarrow> Unmodelled)"

definition MAX_VISIT_DEPTH :: int where "MAX_VISIT_DEPTH = 5470"
definition INTERNAL_RECURSION_LIMIT :: int where "INTERNAL_RECURSION_LIMIT = 1010"

text \<open>\<^verbatim>\<open>self.global_env\<close> is the first environment, made by \<^verbatim>\<open>__init__\<close>.\<close>

definition global_env :: nat where "global_env = 0"

definition Environment :: "string \<Rightarrow> int \<Rightarrow> nat option \<Rightarrow> environment" where
  "Environment n l p =
     \<lparr>env_name = n, level = l, parent = p, variables = [], arrays = [], funcs = []\<rparr>"

definition init_state :: "string list \<Rightarrow> state" where
  "init_state inp =
     \<lparr>heap = (\<lambda>a. RunTimeObject LNull (PStr ''null'')), next_obj = 0,
      envs = (\<lambda>e. Environment ''global'' 1 None), next_env = 1,
      current_env = Some global_env,
      conditional_flag = False, break_flag = False, continue_flag = False,
      visitor_depth = 0, recursion_count = 0,
      node_cache = (\<lambda>k. None), call_cache = (\<lambda>k. None),
      stdin = inp, stdout = [], stderr = []\<rparr>"

text \<open>A new object takes the next free address.\<close>

definition store_object :: "rtobj \<Rightarrow> state \<Rightarrow> state" where
  "store_object obj st =
     st\<lparr>heap := (heap st)(next_obj st := obj), next_obj := Suc (next_obj st)\<rparr>"

definition alloc :: "rtobj \<Rightarrow> state \<Rightarrow> res outcome" where
  "alloc obj st = Done (RObj (next_obj st)) (store_object obj st)"

text \<open>Attribute access on what a visit returned: \<^verbatim>\<open>None\<close> and a list have no
  \<^verbatim>\<open>label\<close>, \<^verbatim>\<open>value\<close> or \<^verbatim>\<open>type\<close>.\<close>

definition obj_of :: "res \<Rightarrow> state \<Rightarrow> rtobj outcome" where
  "obj_of r st =
     (case r of RObj a \<Rightarrow> Done (heap st a) st
      | _ \<Rightarrow> Raise (HostError ''AttributeError'') st)"


section \<open>Environments and the cache (\<^verbatim>\<open>core/Environment.py\<close>, \<^verbatim>\<open>core/CacheMemory.py\<close>)\<close>

text \<open>A Python dict written at a key: the value is replaced where the key stands, a new
  key goes to the end.\<close>

fun upsert :: "'k \<Rightarrow> 'v \<Rightarrow> ('k \<times> 'v) list \<Rightarrow> ('k \<times> 'v) list" where
  "upsert k v [] = [(k, v)]"
| "upsert k v (kv # kvs) = (if fst kv = k then (k, v) # kvs else kv # upsert k v kvs)"

text \<open>An attribute of \<^verbatim>\<open>self.current_env\<close> raises AttributeError once
  \<^verbatim>\<open>visit_program\<close> has set the current environment to \<^verbatim>\<open>None\<close>.\<close>

definition cur_env :: "state \<Rightarrow> nat outcome" where
  "cur_env st =
     (case current_env st of None \<Rightarrow> Raise (HostError ''AttributeError'') st
      | Some e \<Rightarrow> Done e st)"

text \<open>Modelled from the spec: \<^verbatim>\<open>Environment.insert_variable(name, value)\<close>, missing from
  the sources, is an upsert into the scope it is called on.\<close>

definition insert_variable :: "string \<Rightarrow> res \<Rightarrow> nat \<Rightarrow> state \<Rightarrow> state" where
  "insert_variable name v e st =
     st\<lparr>envs := (envs st)(e := (envs st e)\<lparr>variables := upsert name v (variables (envs st e))\<rparr>)\<rparr>"

text \<open>Modelled from the spec: \<^verbatim>\<open>insert_array\<close> and \<^verbatim>\<open>insert_function\<close>, missing
  from the sources, are analogous to \<^verbatim>\<open>insert_variable\<close>.\<close>

definition insert_array :: "string \<Rightarrow> array_symbol \<Rightarrow> nat \<Rightarrow> state \<Rightarrow> state" where
  "insert_array name a e st =
     st\<lparr>envs := (envs st)(e := (envs st e)\<lparr>arrays := upsert name a (arrays (envs st e))\<rparr>)\<rparr>"

definition insert_function :: "string \<Rightarrow> string list \<Rightarrow> node \<Rightarrow> nat \<Rightarrow> state \<Rightarrow> state" where
  "insert_function name ps b e st =
     st\<lparr>envs := (envs st)(e := (envs st e)\<lparr>funcs :=
          upsert name \<lparr>params = ps, body = b\<rparr> (funcs (envs st e))\<rparr>)\<rparr>"

text \<open>Modelled from the spec: lookups, missing from the sources, resolve in the scope they
  are called on and then chain to \<^verbatim>\<open>parent\<close>. The walk is bounded by the number of
  environments there are; it yields the scope that holds the name and the binding.\<close>

primrec lookup_chain :: "nat \<Rightarrow> (environment \<Rightarrow> 'v option) \<Rightarrow> (nat \<Rightarrow> environment) \<Rightarrow> nat \<Rightarrow> (nat \<times> 'v) option" where
  "lookup_chain 0 sel es e = None"
| "lookup_chain (Suc k) sel es e =
     (case sel (es e) of
        Some v \<Rightarrow> Some (e, v)
      | None \<Rightarrow> (case parent (es e) of None \<Rightarrow> None | Some p \<Rightarrow> lookup_chain k sel es p))"

text \<open>Modelled from the spec: \<^verbatim>\<open>lookup_variable(name, lookup_within_scope)\<close> searches
  the current scope only if \<^verbatim>\<open>lookup_within_scope\<close>, and fails with NAME\_NOT\_FOUND
  if the name is absent.\<close>

definition lookup_variable :: "string \<Rightarrow> bool \<Rightarrow> nat \<Rightarrow> state \<Rightarrow> res outcome" where
  "lookup_variable name within_scope e st =
     (case lookup_chain (if within_scope then 1 else next_env st)
             (\<lambda>env. map_of (variables env) name) (envs st) e of
        Some (e', v) \<Rightarrow> Done v st
      | None \<Rightarrow> Raise (InterpreterError NAME_NOT_FOUND name) st)"

definition lookup_array :: "string \<Rightarrow> nat \<Rightarrow> state \<Rightarrow> (nat \<times> array_symbol) outcome" where
  "lookup_array name e st =
     (case lookup_chain (next_env st) (\<lambda>env. map_of (arrays env) name) (envs st) e of
        Some ea \<Rightarrow> Done ea st
      | None \<Rightarrow> Raise (InterpreterError NAME_NOT_FOUND name) st)"

definition lookup_function :: "string \<Rightarrow> nat \<Rightarrow> state \<Rightarrow> function_symbol outcome" where
  "lookup_function name e st =
     (case lookup_chain (next_env st) (\<lambda>env. map_of (funcs env) name) (envs st) e of
        Some (e', f) \<Rightarrow> Done f st
      | None \<Rightarrow> Raise (InterpreterError NAME_NOT_FOUND name) st)"

text \<open>Modelled from the spec: \<^verbatim>\<open>Environment.hash()\<close>, missing from the sources, is a
  fingerprint derived from the scope name, the level and the bindings.\<close>

fun fval_of :: "(nat \<Rightarrow> rtobj) \<Rightarrow> res \<Rightarrow> fval" where
  "fval_of h RNone = FNone"
| "fval_of h (RObj a) = FObj (label (h a)) (val (h a))"
| "fval_of h (RList rs) = FList (map (fval_of h) rs)"

definition env_hash :: "nat \<Rightarrow> state \<Rightarrow> fingerprint" where
  "env_hash e st =
     (env_name (envs st e), level (envs st e),
      map (\<lambda>nv. (fst nv, fval_of (heap st) (snd nv))) (variables (envs st e)))"

text \<open>Modelled from the spec: \<^verbatim>\<open>cache_mem\<close>, missing from the sources, is a mapping with
  two kinds of keys, node identities and environment fingerprints, whose entries are never
  evicted. \<^verbatim>\<open>get\<close> gives \<^verbatim>\<open>None\<close> for a key that is absent, as the tests
  \<^verbatim>\<open>if cached_visit := cache_mem.get(self)\<close> and \<^verbatim>\<open>if result is None\<close> of its callers
  expect.\<close>

definition cache_has_key :: "node \<Rightarrow> state \<Rightarrow> bool" where
  "cache_has_key n st = (node_cache st (nid n) \<noteq> None)"

definition cache_put_node :: "node \<Rightarrow> handler \<Rightarrow> state \<Rightarrow> state" where
  "cache_put_node n h st = st\<lparr>node_cache := (node_cache st)(nid n := Some h)\<rparr>"

definition cache_get_node :: "node \<Rightarrow> state \<Rightarrow> handler option" where
  "cache_get_node n st = node_cache st (nid n)"

definition cache_put_call :: "fingerprint \<Rightarrow> res \<Rightarrow> state \<Rightarrow> state" where
  "cache_put_call k r st = st\<lparr>call_cache := (call_cache st)(k := Some r)\<rparr>"

definition cache_get_call :: "fingerprint \<Rightarrow> state \<Rightarrow> res" where
  "cache_get_call k st = (case call_cache st k of None \<Rightarrow> RNone | Some r \<Rightarrow> r)"

section \<open>The interpreter (\<^verbatim>\<open>Interpreter.py\<close>)\<close>

text \<open>
  Every visit method takes \<open>acc\<close>, what \<^verbatim>\<open>child.accept(self)\<close> does, and the attributes
  of its node. \<open>tr\<close> is the truth value of a \<^verbatim>\<open>RunTimeObject\<close> itself
  (\<^verbatim>\<open>if stmt := ...\<close>), whose class is missing from the sources: it is a parameter.
  Verbose logging is off, as by default.
\<close>

text \<open>Modelled from the spec: \<^verbatim>\<open>throw_invalid_operation_err\<close> and
  \<^verbatim>\<open>throw_unary_type_err\<close>, missing from the sources, raise an invalid-operation error
  of kind RUNTIME and a unary-operator error of kind TYPE.\<close>

definition throw_invalid_operation_err :: "state \<Rightarrow> 'a outcome" where
  "throw_invalid_operation_err st = Raise (InterpreterError RUNTIME ''invalid operation'') st"

definition throw_unary_type_err :: "state \<Rightarrow> 'a outcome" where
  "throw_unary_type_err st = Raise (InterpreterError TYPE_ERROR ''unary operator'') st"

definition test_for_identifier :: "res \<Rightarrow> state \<Rightarrow> res outcome" where
  "test_for_identifier runtime_object st =
     and_then (obj_of runtime_object st) (\<lambda>ob st.
       if label ob = LIdentifier then
         and_then (cur_env st) (\<lambda>e st.
           case val ob of PStr name \<Rightarrow> lookup_variable name False e st | _ \<Rightarrow> Unmodelled)
       else Done runtime_object st)"

definition check_for_stack_overflow :: "state \<Rightarrow> unit outcome" where
  "check_for_stack_overflow st =
     (if recursion_count st > INTERNAL_RECURSION_LIMIT
      then Raise (InterpreterError RECURSION ''recursion depth exceeded'')
             (st\<lparr>recursion_count := 0\<rparr>)
      else Done () (st\<lparr>recursion_count := recursion_count st + 1\<rparr>))"

text \<open>A new \<^verbatim>\<open>RunTimeObject\<close> from the result of a Python operator, which may raise
  TypeError.\<close>

definition new_object :: "label \<Rightarrow> pyval option \<Rightarrow> state \<Rightarrow> res outcome" where
  "new_object l v st =
     (case v of None \<Rightarrow> Raise (HostError ''TypeError'') st
      | Some x \<Rightarrow> alloc (RunTimeObject l x) st)"

definition handle_additive_expressions :: "res \<Rightarrow> res \<Rightarrow> string \<Rightarrow> state \<Rightarrow> res outcome" where
  "handle_additive_expressions left right op st =
     and_then (obj_of left st) (\<lambda>l st.
       if op = ''or'' then
         (if truthy (val l) then alloc (RunTimeObject (label l) (val l)) st
          else and_then (obj_of right st) (\<lambda>r st.
                 alloc (RunTimeObject (label l) (py_or (val l) (val r))) st))
       else
         and_then (obj_of right st) (\<lambda>r st.
           if op = ''+'' then
             (if label l = LString \<and> label l = label r
              then new_object LString (py_add (val l) (val r)) st
              else if label l = LNumber \<and> label l = label r
              then new_object LNumber (py_add (val l) (val r)) st
              else throw_invalid_operation_err st)
           else if op = ''-'' then
             (if label l = LNumber \<and> label l = label r
              then new_object LNumber (py_sub (val l) (val r)) st
              else throw_invalid_operation_err st)
           else throw_invalid_operation_err st))"

definition handle_multiplicative_expressions :: "res \<Rightarrow> res \<Rightarrow> string \<Rightarrow> state \<Rightarrow> res outcome" where
  "handle_multiplicative_expressions left right op st =
     and_then (obj_of left st) (\<lambda>l st.
     and_then (obj_of right st) (\<lambda>r st.
       if op = ''*'' then
         (if (label l = LString \<and> label r = LNumber) \<or> (label l = LNumber \<and> label r = LString)
          then new_object LString (py_mul (val l) (val r)) st
          else if label l = LNumber \<and> label l = label r
          then new_object LNumber (py_mul (val l) (val r)) st
          else throw_invalid_operation_err st)
       else if op = ''/'' then
         (if label l = LNumber \<and> label l = label r then
            (if py_ne_zero (val r)
             then new_object LNumber (py_truediv (val l) (val r)) st
             else Raise (InterpreterError RUNTIME ''Division by zero'') st)
          else throw_invalid_operation_err st)
       else if op = ''and'' then
         alloc (RunTimeObject (label r) (py_and (val l) (val r))) st
       else throw_invalid_operation_err st))"

text \<open>
  The source compares through \<^verbatim>\<open>eval\<close> on formatted text. For numbers and booleans the
  text \<^verbatim>\<open>f"{a} {op} {b}"\<close> is the comparison of the two values; for two strings without
  quote, backslash or line break \<^verbatim>\<open>f'"{a}" {op} "{b}"'\<close> is the comparison of the two
  string literals. For any other payload the text is Python source of another shape, which
  the model does not evaluate.
\<close>

definition eval_numbers :: "pyval \<Rightarrow> string \<Rightarrow> pyval \<Rightarrow> state \<Rightarrow> res outcome" where
  "eval_numbers a op b st =
     (case (real_of a, real_of b) of
        (Some x, Some y) \<Rightarrow>
          (case rel_op op x y of None \<Rightarrow> Unmodelled
           | Some t \<Rightarrow> alloc (RunTimeObject LBoolean (PBool t)) st)
      | _ \<Rightarrow> Unmodelled)"

definition eval_strings :: "pyval \<Rightarrow> string \<Rightarrow> pyval \<Rightarrow> state \<Rightarrow> res outcome" where
  "eval_strings a op b st =
     (case (a, b) of
        (PStr s, PStr t) \<Rightarrow>
          (if plain_str s \<and> plain_str t then
             (case rel_op_str op s t of None \<Rightarrow> Unmodelled
              | Some x \<Rightarrow> alloc (RunTimeObject LBoolean (PBool x)) st)
           else Unmodelled)
      | _ \<Rightarrow> Unmodelled)"

definition handle_relational_expressions :: "res \<Rightarrow> res \<Rightarrow> string \<Rightarrow> state \<Rightarrow> res outcome" where
  "handle_relational_expressions left right op st =
     and_then (obj_of left st) (\<lambda>l st.
     and_then (obj_of right st) (\<lambda>r st.
       if label l = LString \<and> label r = LNumber then
         (case val l of
            PStr s \<Rightarrow> eval_numbers (PInt (int (length s))) op (val r) st
          | _ \<Rightarrow> Raise (HostError ''TypeError'') st)
       else if label l = label r then
         (if label l = LString then eval_strings (val l) op (val r) st
          else eval_numbers (val l) op (val r) st)
       else throw_invalid_operation_err st))"

definition handle_expressions :: "(node \<Rightarrow> state \<Rightarrow> res outcome) \<Rightarrow> node \<Rightarrow> string option \<Rightarrow> node option \<Rightarrow> state \<Rightarrow> res outcome" where
  "handle_expressions acc left_node operator right_node st =
     and_then (acc left_node st) (\<lambda>left st.
     and_then (test_for_identifier left st) (\<lambda>left st.
       if operator \<noteq> None \<and> operator \<noteq> Some [] then
         (case right_node of
            None \<Rightarrow> Raise (HostError ''AttributeError'') st
          | Some rn \<Rightarrow>
              and_then (acc rn st) (\<lambda>right st.
              and_then (test_for_identifier right st) (\<lambda>right st.
                let op = the operator in
                if op \<in> set [''+'', ''-'', ''or'']
                then handle_additive_expressions left right op st
                else if op \<in> set [''*'', ''/'', ''and'']
                then handle_multiplicative_expressions left right op st
                else if op \<in> set [''=='', ''!='', ''<'', ''>'', ''<='', ''>='']
                then handle_relational_expressions left right op st
                else and_then (obj_of left st) (\<lambda>l st.
                     and_then (obj_of right st) (\<lambda>r st.
                       throw_invalid_operation_err st)))))
       else Done left st))"


text \<open>The list comprehension \<^verbatim>\<open>[n.accept(self) for n in nodes]\<close>.\<close>

primrec accept_all :: "(node \<Rightarrow> state \<Rightarrow> res outcome) \<Rightarrow> node list \<Rightarrow> state \<Rightarrow> res list outcome" where
  "accept_all acc [] st = Done [] st"
| "accept_all acc (n # ns) st =
     and_then (acc n st) (\<lambda>r st.
     and_then (accept_all acc ns st) (\<lambda>rs st. Done (r # rs) st))"

definition visit_args :: "(node \<Rightarrow> state \<Rightarrow> res outcome) \<Rightarrow> node list \<Rightarrow> state \<Rightarrow> res outcome" where
  "visit_args acc children st = and_then (accept_all acc children st) (\<lambda>rs st. Done (RList rs) st)"

text \<open>\<^verbatim>\<open>for func in node.functions: func.accept(self)\<close>.\<close>

primrec visit_functions :: "(node \<Rightarrow> state \<Rightarrow> res outcome) \<Rightarrow> node list \<Rightarrow> state \<Rightarrow> unit outcome" where
  "visit_functions acc [] st = Done () st"
| "visit_functions acc (f # fs) st = and_then (acc f st) (\<lambda>r st. visit_functions acc fs st)"

definition visit_program :: "(node \<Rightarrow> state \<Rightarrow> res outcome) \<Rightarrow> bool \<Rightarrow> node list \<Rightarrow> node option \<Rightarrow> state \<Rightarrow> res outcome" where
  "visit_program acc eof functions_list body_node st =
     (if eof then Done RNone st
      else and_then (visit_functions acc functions_list st) (\<lambda>u st.
             case body_node of
               None \<Rightarrow> Raise (HostError ''AttributeError'') st
             | Some b \<Rightarrow> and_then (acc b st) (\<lambda>r st. Done RNone (st\<lparr>current_env := None\<rparr>))))"

text \<open>The loop of \<^verbatim>\<open>visit_func_def\<close> over the evaluated parameters. A parameter whose
  payload is not a str is outside the model.\<close>

primrec collect_params :: "res list \<Rightarrow> string list \<Rightarrow> state \<Rightarrow> string list outcome" where
  "collect_params [] ps st = Done ps st"
| "collect_params (a # as) ps st =
     and_then (obj_of a st) (\<lambda>arg st.
       case val arg of
         PStr name \<Rightarrow>
           (if name \<notin> set ps then collect_params as (ps @ [name]) st
            else Raise (InterpreterError RUNTIME ''Duplicate parameter'') st)
       | _ \<Rightarrow> Unmodelled)"

definition visit_func_def :: "(node \<Rightarrow> state \<Rightarrow> res outcome) \<Rightarrow> string \<Rightarrow> node option \<Rightarrow> node \<Rightarrow> state \<Rightarrow> res outcome" where
  "visit_func_def acc identifier args body_node st =
     and_then
       (case args of
          None \<Rightarrow> Done [] st
        | Some a \<Rightarrow> and_then (acc a st) (\<lambda>r st.
            case r of RList rs \<Rightarrow> collect_params rs [] st
            | _ \<Rightarrow> Raise (HostError ''TypeError'') st))
       (\<lambda>ps st. and_then (cur_env st) (\<lambda>e st.
          Done RNone (insert_function identifier ps body_node e st)))"

primrec body_loop :: "(node \<Rightarrow> state \<Rightarrow> res outcome) \<Rightarrow> node list \<Rightarrow> res \<Rightarrow> state \<Rightarrow> res outcome" where
  "body_loop acc [] last_evaluated_stmt st = Done last_evaluated_stmt st"
| "body_loop acc (stmt # stmts) last_evaluated_stmt st =
     (if conditional_flag st then Done last_evaluated_stmt (st\<lparr>conditional_flag := False\<rparr>)
      else if break_flag st then Done last_evaluated_stmt st
      else if continue_flag st then body_loop acc stmts last_evaluated_stmt (st\<lparr>continue_flag := False\<rparr>)
      else and_then (acc stmt st) (\<lambda>evaluated_stmt st.
             let latest = (if evaluated_stmt \<noteq> RNone then evaluated_stmt else last_evaluated_stmt)
             in if is_return stmt then Done latest st else body_loop acc stmts latest st))"

definition visit_body :: "(node \<Rightarrow> state \<Rightarrow> res outcome) \<Rightarrow> node list \<Rightarrow> state \<Rightarrow> res outcome" where
  "visit_body acc statements st = body_loop acc statements RNone st"

definition visit_return :: "(node \<Rightarrow> state \<Rightarrow> res outcome) \<Rightarrow> node option \<Rightarrow> state \<Rightarrow> res outcome" where
  "visit_return acc expr st = (case expr of None \<Rightarrow> Done RNone st | Some e \<Rightarrow> acc e st)"

definition visit_break :: "state \<Rightarrow> res outcome" where
  "visit_break st = Done RNone (st\<lparr>break_flag := True\<rparr>)"

definition visit_continue :: "state \<Rightarrow> res outcome" where
  "visit_continue st = Done RNone (st\<lparr>continue_flag := True\<rparr>)"

text \<open>\<^verbatim>\<open>__handle_conditional_execution\<close>: \<^verbatim>\<open>body_node.statements[-1]\<close> raises
  IndexError on an empty body, and AttributeError on a node that is not a body.\<close>

definition handle_conditional_execution :: "(node \<Rightarrow> state \<Rightarrow> res outcome) \<Rightarrow> node option \<Rightarrow> state \<Rightarrow> res outcome" where
  "handle_conditional_execution acc body_node st =
     (case body_node of
        None \<Rightarrow> Done RNone st
      | Some b \<Rightarrow>
          and_then (acc b st) (\<lambda>last_evaluated_stmt st.
            case b of
              Body i statements \<Rightarrow>
                (if statements = [] then Raise (HostError ''IndexError'') st
                 else if is_return (last statements)
                 then Done last_evaluated_stmt (st\<lparr>conditional_flag := True\<rparr>)
                 else Done RNone st)
            | _ \<Rightarrow> Raise (HostError ''AttributeError'') st))"

text \<open>The else-if statements in order, then the else body.\<close>

primrec else_if_loop :: "(node \<Rightarrow> state \<Rightarrow> res outcome) \<Rightarrow> (node \<times> node option) list \<Rightarrow> node option \<Rightarrow> state \<Rightarrow> res outcome" where
  "else_if_loop acc [] else_body st =
     (if else_body \<noteq> None then handle_conditional_execution acc else_body st else Done RNone st)"
| "else_if_loop acc (else_if_stmt # rest) else_body st =
     and_then (acc (fst else_if_stmt) st) (\<lambda>condition st.
     and_then (obj_of condition st) (\<lambda>c st.
       if truthy (val c) then handle_conditional_execution acc (snd else_if_stmt) st
       else else_if_loop acc rest else_body st))"

definition visit_if :: "(node \<Rightarrow> state \<Rightarrow> res outcome) \<Rightarrow> node \<Rightarrow> node option \<Rightarrow> (node \<times> node option) list \<Rightarrow> node option \<Rightarrow> state \<Rightarrow> res outcome" where
  "visit_if acc expr body_node else_if_statements else_body st =
     and_then (acc expr st) (\<lambda>condition st.
     and_then (obj_of condition st) (\<lambda>c st.
       if truthy (val c) then handle_conditional_execution acc body_node st
       else else_if_loop acc else_if_statements else_body st))"

text \<open>The truth value of what a visit returned: \<^verbatim>\<open>None\<close> and the empty list are
  false, a \<^verbatim>\<open>RunTimeObject\<close> is what \<open>tr\<close> says.\<close>

definition res_truthy :: "(rtobj \<Rightarrow> bool) \<Rightarrow> res \<Rightarrow> state \<Rightarrow> bool" where
  "res_truthy tr r st = (case r of RNone \<Rightarrow> False | RObj a \<Rightarrow> tr (heap st a) | RList rs \<Rightarrow> rs \<noteq> [])"

text \<open>The while loop of \<^verbatim>\<open>visit_while\<close>, entered with the condition evaluated. The first
  argument bounds the number of iterations.\<close>

primrec while_loop :: "nat \<Rightarrow> (rtobj \<Rightarrow> bool) \<Rightarrow> (node \<Rightarrow> state \<Rightarrow> res outcome) \<Rightarrow> node \<Rightarrow> node option \<Rightarrow> res \<Rightarrow> state \<Rightarrow> res outcome" where
  "while_loop 0 tr acc expr body_node condition st = OutOfFuel"
| "while_loop (Suc k) tr acc expr body_node condition st =
     and_then (obj_of condition st) (\<lambda>c st.
       if truthy (val c) then
         and_then (handle_conditional_execution acc body_node st) (\<lambda>stmt st.
           if res_truthy tr stmt st then Done stmt st
           else if break_flag st then Done RNone (st\<lparr>break_flag := False\<rparr>)
           else and_then (acc expr st) (\<lambda>condition st.
                  while_loop k tr acc expr body_node condition st))
       else Done RNone st)"

definition visit_while :: "nat \<Rightarrow> (rtobj \<Rightarrow> bool) \<Rightarrow> (node \<Rightarrow> state \<Rightarrow> res outcome) \<Rightarrow> node \<Rightarrow> node option \<Rightarrow> state \<Rightarrow> res outcome" where
  "visit_while k tr acc expr body_node st =
     and_then (acc expr st) (\<lambda>condition st. while_loop k tr acc expr body_node condition st)"

definition validate_range_node :: "(node \<Rightarrow> state \<Rightarrow> res outcome) \<Rightarrow> node \<Rightarrow> state \<Rightarrow> int outcome" where
  "validate_range_node acc range_node st =
     and_then (acc range_node st) (\<lambda>r st.
     and_then (obj_of r st) (\<lambda>runtime_object st.
       case int_of (val runtime_object) of
         None \<Rightarrow> Raise (InterpreterError RUNTIME ''Range value cannot be used as an integer'') st
       | Some i \<Rightarrow> Done i st))"

text \<open>\<^verbatim>\<open>range(range_start, range_end, incrementer)\<close>, where the incrementer is 1 if
  \<^verbatim>\<open>range_start < range_end\<close> and -1 otherwise.\<close>

definition for_range :: "int \<Rightarrow> int \<Rightarrow> int list" where
  "for_range range_start range_end =
     (if range_start < range_end then [range_start..range_end - 1]
      else rev [range_end + 1..range_start])"

text \<open>\<^verbatim>\<open>iterator_runtime_object.value = i\<close>: the iterator object, at address \<open>it\<close>, is
  written in place.\<close>

definition set_iterator :: "nat \<Rightarrow> int \<Rightarrow> state \<Rightarrow> state" where
  "set_iterator it i st = st\<lparr>heap := (heap st)(it := (heap st it)\<lparr>val := PInt i\<rparr>)\<rparr>"

text \<open>The loop of \<^verbatim>\<open>visit_for\<close> over the values of the range.\<close>

primrec for_loop :: "(rtobj \<Rightarrow> bool) \<Rightarrow> (node \<Rightarrow> state \<Rightarrow> res outcome) \<Rightarrow> nat \<Rightarrow> node option \<Rightarrow> int list \<Rightarrow> state \<Rightarrow> res outcome" where
  "for_loop tr acc it body_node [] st = Done RNone st"
| "for_loop tr acc it body_node (i # rest) st =
     and_then (handle_conditional_execution acc body_node (set_iterator it i st))
       (\<lambda>last_evaluated st.
          if res_truthy tr last_evaluated st then Done last_evaluated st
          else for_loop tr acc it body_node rest st)"

definition visit_for :: "(rtobj \<Rightarrow> bool) \<Rightarrow> (node \<Rightarrow> state \<Rightarrow> res outcome) \<Rightarrow> string \<Rightarrow> node \<Rightarrow> node \<Rightarrow> node option \<Rightarrow> state \<Rightarrow> res outcome" where
  "visit_for tr acc identifier range_start_node range_end_node body_node st =
     and_then (validate_range_node acc range_start_node st) (\<lambda>range_start st.
     and_then (validate_range_node acc range_end_node st) (\<lambda>range_end st.
       let it = next_obj st;
           st = store_object \<lparr>label = LNumber, val = PInt 0, value_type = Some ''int''\<rparr> st
       in and_then (cur_env st) (\<lambda>e st.
            for_loop tr acc it body_node (for_range range_start range_end)
              (insert_variable identifier (RObj it) e st))))"


definition visit_array_def :: "(node \<Rightarrow> state \<Rightarrow> res outcome) \<Rightarrow> string \<Rightarrow> node option \<Rightarrow> node list option \<Rightarrow> state \<Rightarrow> res outcome" where
  "visit_array_def acc identifier size_expr initial_values st =
     and_then
       (case size_expr of
          Some sz \<Rightarrow>
            and_then (acc sz st) (\<lambda>r st.
            and_then (test_for_identifier r st) (\<lambda>r st.
            and_then (obj_of r st) (\<lambda>ob st.
            and_then (alloc (RunTimeObject LNull (PStr ''null'')) st) (\<lambda>null_object st.
              case py_int (val ob) of
                None \<Rightarrow> Unmodelled
              | Some n \<Rightarrow> Done \<lparr>declared_size = val ob, vals = replicate (nat n) null_object\<rparr> st))))
        | None \<Rightarrow>
            (if initial_values \<noteq> None \<and> initial_values \<noteq> Some [] then
               and_then (accept_all acc (the initial_values) st) (\<lambda>values st.
                 Done \<lparr>declared_size = PInt (int (length (the initial_values))), vals = values\<rparr> st)
             else Done \<lparr>declared_size = PInt (- 1), vals = []\<rparr> st))
       (\<lambda>array_symbol st. and_then (cur_env st) (\<lambda>e st.
          Done RNone (insert_array identifier array_symbol e st)))"

definition visit_array_access :: "(node \<Rightarrow> state \<Rightarrow> res outcome) \<Rightarrow> string \<Rightarrow> node \<Rightarrow> state \<Rightarrow> res outcome" where
  "visit_array_access acc identifier index_node st =
     and_then (acc index_node st) (\<lambda>r st.
     and_then (test_for_identifier r st) (\<lambda>r st.
     and_then (obj_of r st) (\<lambda>ob st.
     and_then (cur_env st) (\<lambda>e st.
     and_then (lookup_array identifier e st) (\<lambda>ea st.
       case real_of (val ob) of
         None \<Rightarrow> Raise (HostError ''TypeError'') st
       | Some x \<Rightarrow>
           (if x < 0 \<or> x \<ge> real (length (vals (snd ea)))
            then Raise (InterpreterError RUNTIME ''Array index out of bounds'') st
            else (case int_of (val ob) of
                    None \<Rightarrow> Raise (HostError ''TypeError'') st
                  | Some i \<Rightarrow> Done (vals (snd ea) ! nat i) st)))))))"

definition visit_array_update :: "(node \<Rightarrow> state \<Rightarrow> res outcome) \<Rightarrow> string \<Rightarrow> node \<Rightarrow> node \<Rightarrow> state \<Rightarrow> res outcome" where
  "visit_array_update acc identifier index_node value_node st =
     and_then (acc index_node st) (\<lambda>r st.
     and_then (test_for_identifier r st) (\<lambda>r st.
     and_then (obj_of r st) (\<lambda>ob st.
     and_then (acc value_node st) (\<lambda>value_runtime st.
     and_then (cur_env st) (\<lambda>e st.
     and_then (lookup_array identifier e st) (\<lambda>ea st.
       case py_int (val ob) of
         None \<Rightarrow> Unmodelled
       | Some n \<Rightarrow>
           (if n < 0 \<or> n \<ge> int (length (vals (snd ea)))
            then Raise (InterpreterError RUNTIME ''Array index out of bounds'') st
            else and_then (obj_of value_runtime st) (\<lambda>v st.
                 and_then (alloc v st) (\<lambda>copy st.
                   case int_of (val ob) of
                     None \<Rightarrow> Raise (HostError ''TypeError'') st
                   | Some i \<Rightarrow>
                       Done RNone
                         (insert_array identifier
                            ((snd ea)\<lparr>vals := (vals (snd ea))[nat i := copy]\<rparr>) (fst ea) st))))))))))"

definition visit_assignment :: "(node \<Rightarrow> state \<Rightarrow> res outcome) \<Rightarrow> node \<Rightarrow> node \<Rightarrow> state \<Rightarrow> res outcome" where
  "visit_assignment acc left_node right_node st =
     and_then (acc left_node st) (\<lambda>lhs st.
     and_then (acc right_node st) (\<lambda>rhs st.
     and_then (cur_env st) (\<lambda>e st.
     and_then (obj_of lhs st) (\<lambda>l st.
     and_then (obj_of rhs st) (\<lambda>r st.
     and_then (alloc r st) (\<lambda>copy st.
       case val l of
         PStr name \<Rightarrow> Done RNone (insert_variable name copy e st)
       | _ \<Rightarrow> Unmodelled))))))"

text \<open>\<^verbatim>\<open>for i, param in enumerate(function_symbol.params):
  local_env.insert_variable(param, function_args[i])\<close>, the two lists of one length.\<close>

primrec bind_params :: "nat \<Rightarrow> string list \<Rightarrow> res list \<Rightarrow> state \<Rightarrow> state" where
  "bind_params local_env [] function_args st = st"
| "bind_params local_env (param # ps) function_args st =
     bind_params local_env ps (tl function_args)
       (insert_variable param (hd function_args) local_env st)"

text \<open>\<^verbatim>\<open>Environment(name, level, parent)\<close>: a new environment takes the next free
  address.\<close>

definition new_environment :: "string \<Rightarrow> int \<Rightarrow> nat option \<Rightarrow> state \<Rightarrow> state" where
  "new_environment name lvl p st =
     st\<lparr>envs := (envs st)(next_env st := Environment name lvl p), next_env := Suc (next_env st)\<rparr>"

text \<open>Lines 378 to 392 of \<^verbatim>\<open>visit_call\<close>: the arguments are evaluated, counted and
  bound only if the call node has an \<^verbatim>\<open>args\<close> node.\<close>

definition bind_arguments :: "(node \<Rightarrow> state \<Rightarrow> res outcome) \<Rightarrow> node option \<Rightarrow> nat \<Rightarrow> function_symbol \<Rightarrow> state \<Rightarrow> unit outcome" where
  "bind_arguments acc args local_env function_symbol st =
     (case args of
        None \<Rightarrow> Done () st
      | Some a \<Rightarrow>
          and_then (acc a st) (\<lambda>r st.
            case r of
              RList function_args \<Rightarrow>
                (if length function_args \<noteq> length (params function_symbol)
                 then Raise (InterpreterError RUNTIME ''Invalid number of arguments provided'') st
                 else Done () (bind_params local_env (params function_symbol) function_args st))
            | _ \<Rightarrow> Raise (HostError ''TypeError'') st))"

text \<open>Lines 394 to 405 of \<^verbatim>\<open>visit_call\<close>: the scope is switched, the cache is asked
  for the fingerprint of the local environment, the body is visited if the answer is
  \<^verbatim>\<open>None\<close> and its result stored, the scope is restored and the counter decremented.\<close>

definition call_function :: "(node \<Rightarrow> state \<Rightarrow> res outcome) \<Rightarrow> nat \<Rightarrow> nat \<Rightarrow> function_symbol \<Rightarrow> state \<Rightarrow> res outcome" where
  "call_function acc old_env local_env function_symbol st =
     (let st = st\<lparr>current_env := Some local_env\<rparr>;
          hash = env_hash local_env st;
          cached = cache_get_call hash st
      in
      and_then
        (if cached = RNone
         then and_then (acc (body function_symbol) st) (\<lambda>result st.
                Done result (cache_put_call hash result st))
         else Done cached st)
        (\<lambda>result st.
           Done result (st\<lparr>current_env := Some old_env,
                           recursion_count := recursion_count st - 1\<rparr>)))"

definition visit_call :: "(node \<Rightarrow> state \<Rightarrow> res outcome) \<Rightarrow> string \<Rightarrow> node option \<Rightarrow> state \<Rightarrow> res outcome" where
  "visit_call acc identifier args st =
     and_then (check_for_stack_overflow st) (\<lambda>u st.
     and_then (cur_env st) (\<lambda>old_env st.
       let local_env = next_env st;
           st = new_environment identifier (level (envs st old_env) + 1) (Some global_env) st
       in
       and_then (lookup_function identifier old_env st) (\<lambda>function_symbol st.
       and_then (bind_arguments acc args local_env function_symbol st) (\<lambda>u st.
         call_function acc old_env local_env function_symbol st))))"

text \<open>\<^verbatim>\<open>input(message)\<close> writes the prompt and reads a line; it raises EOFError at the end
  of the input.\<close>

definition visit_input :: "string \<Rightarrow> state \<Rightarrow> res outcome" where
  "visit_input message st =
     (let st = st\<lparr>stdout := stdout st @ [Prompt message]\<rparr> in
      case stdin st of
        [] \<Rightarrow> Raise (HostError ''EOFError'') st
      | line # rest \<Rightarrow> alloc (RunTimeObject LString (PStr line)) (st\<lparr>stdin := rest\<rparr>))"

primrec print_loop :: "res list \<Rightarrow> state \<Rightarrow> unit outcome" where
  "print_loop [] st = Done () st"
| "print_loop (a # as) st =
     and_then (obj_of a st) (\<lambda>arg st.
       print_loop as
         (st\<lparr>stdout := stdout st @ (if as \<noteq> [] then [Out (val arg), Sep] else [Out (val arg)])\<rparr>))"

definition visit_print :: "(node \<Rightarrow> state \<Rightarrow> res outcome) \<Rightarrow> node \<Rightarrow> bool \<Rightarrow> state \<Rightarrow> res outcome" where
  "visit_print acc args println st =
     and_then (acc args st) (\<lambda>r st.
       case r of
         RList rs \<Rightarrow>
           and_then (print_loop rs st) (\<lambda>u st.
             Done RNone (if println then st\<lparr>stdout := stdout st @ [Newline]\<rparr> else st))
       | _ \<Rightarrow> Raise (HostError ''TypeError'') st)"

definition visit_postfix_expr :: "(node \<Rightarrow> state \<Rightarrow> res outcome) \<Rightarrow> node \<Rightarrow> string option \<Rightarrow> state \<Rightarrow> res outcome" where
  "visit_postfix_expr acc left_node operator st =
     and_then (acc left_node st) (\<lambda>lhs st.
     and_then (test_for_identifier lhs st) (\<lambda>runtime_object st.
       case runtime_object of
         RObj a \<Rightarrow>
           (case py_add (val (heap st a)) (PInt (if operator = Some ''++'' then 1 else - 1)) of
              None \<Rightarrow> Raise (HostError ''TypeError'') st
            | Some v \<Rightarrow>
                alloc (RunTimeObject LNumber v)
                  (st\<lparr>heap := (heap st)(a := (heap st a)\<lparr>val := v\<rparr>)\<rparr>))
       | _ \<Rightarrow> Raise (HostError ''AttributeError'') st))"

definition visit_factor :: "(node \<Rightarrow> state \<Rightarrow> res outcome) \<Rightarrow> node \<Rightarrow> node option \<Rightarrow> state \<Rightarrow> res outcome" where
  "visit_factor acc left_node right_node st =
     and_then (acc left_node st) (\<lambda>left_factor st.
     and_then (test_for_identifier left_factor st) (\<lambda>left_factor st.
       case right_node of
         None \<Rightarrow> Done left_factor st
       | Some rn \<Rightarrow>
           and_then (acc rn st) (\<lambda>right_factor st.
           and_then (test_for_identifier right_factor st) (\<lambda>right_factor st.
           and_then (obj_of left_factor st) (\<lambda>l st.
             if val l = PStr ''not'' then
               and_then (obj_of right_factor st) (\<lambda>r st.
                 if label r \<in> set [LString, LNumber, LIdentifier, LBoolean]
                 then alloc (RunTimeObject LBoolean (PBool (\<not> truthy (val r)))) st
                 else throw_unary_type_err st)
             else if val l = PStr ''-'' then
               and_then (obj_of right_factor st) (\<lambda>r st.
                 case py_neg (val r) of
                   None \<Rightarrow> Raise (InterpreterError TYPE_ERROR ''bad operand type for unary -'') st
                 | Some v \<Rightarrow> alloc (RunTimeObject LNumber v) st)
             else Done left_factor st)))))"

text \<open>The visit method of a node, on its attributes. \<open>k\<close> bounds the iterations of a while
  loop.\<close>

fun run :: "nat \<Rightarrow> (rtobj \<Rightarrow> bool) \<Rightarrow> (node \<Rightarrow> state \<Rightarrow> res outcome) \<Rightarrow> node \<Rightarrow> state \<Rightarrow> res outcome" where
  "run k tr acc (Program i eof fs b) st = visit_program acc eof fs b st"
| "run k tr acc (FuncDef i f a b) st = visit_func_def acc f a b st"
| "run k tr acc (Body i ss) st = visit_body acc ss st"
| "run k tr acc (Return i e) st = visit_return acc e st"
| "run k tr acc (Break i) st = visit_break st"
| "run k tr acc (Continue i) st = visit_continue st"
| "run k tr acc (Args i cs) st = visit_args acc cs st"
| "run k tr acc (While i e b) st = visit_while k tr acc e b st"
| "run k tr acc (For i x s e b) st = visit_for tr acc x s e b st"
| "run k tr acc (If i e b eis eb) st = visit_if acc e b eis eb st"
| "run k tr acc (Assignment i l r) st = visit_assignment acc l r st"
| "run k tr acc (ArrayDef i a sz vs) st = visit_array_def acc a sz vs st"
| "run k tr acc (ArrayAccess i a ix) st = visit_array_access acc a ix st"
| "run k tr acc (ArrayUpdate i a ix v) st = visit_array_update acc a ix v st"
| "run k tr acc (Call i f a) st = visit_call acc f a st"
| "run k tr acc (Input i m) st = visit_input m st"
| "run k tr acc (Print i a nl) st = visit_print acc a nl st"
| "run k tr acc (PostfixExpr i l op) st = visit_postfix_expr acc l op st"
| "run k tr acc (Expr i l op r) st = handle_expressions acc l op r st"
| "run k tr acc (SimpleExpr i l op r) st = handle_expressions acc l op r st"
| "run k tr acc (Term i l op r) st = handle_expressions acc l op r st"
| "run k tr acc (Factor i l r) st = visit_factor acc l r st"
| "run k tr acc (Operator i v) st = alloc (RunTimeObject LOperator (PStr v)) st"
| "run k tr acc (Identifier i v) st = alloc (RunTimeObject LIdentifier (PStr v)) st"
| "run k tr acc (NumericLiteral i v) st = alloc (RunTimeObject LNumber v) st"
| "run k tr acc (StringLiteral i v) st = alloc (RunTimeObject LString (PStr v)) st"
| "run k tr acc (BooleanLiteral i v) st = alloc (RunTimeObject LBoolean (PBool v)) st"

text \<open>Calling a bound method on a node. The cache is keyed by object identity and
  \<^verbatim>\<open>visit\<close> alone fills it, with the method of the node itself; a cache that holds
  another method for a node is outside the model.\<close>

definition call_handler :: "nat \<Rightarrow> (rtobj \<Rightarrow> bool) \<Rightarrow> (node \<Rightarrow> state \<Rightarrow> res outcome) \<Rightarrow> handler \<Rightarrow> node \<Rightarrow> state \<Rightarrow> res outcome" where
  "call_handler k tr acc h n st = (if h = visit_method n then run k tr acc n st else Unmodelled)"

text \<open>\<^verbatim>\<open>Interpreter.visit\<close>. \<open>call\<close> is how a bound method is called.\<close>

definition visit :: "(handler \<Rightarrow> node \<Rightarrow> state \<Rightarrow> res outcome) \<Rightarrow> node \<Rightarrow> state \<Rightarrow> res outcome" where
  "visit call n st =
     (if visitor_depth st \<ge> MAX_VISIT_DEPTH then Raise RecursionError st
      else if current_env st = None
      then Raise (InterpreterError RUNTIME ''Undefined scope'') st
      else
        let st = st\<lparr>visitor_depth := visitor_depth st + 1\<rparr>;
            h = visit_method n;
            st = (if cache_has_key n st then st else cache_put_node n h st)
        in and_then (call h n st) (\<lambda>result st.
             Done result (st\<lparr>visitor_depth := visitor_depth st - 1\<rparr>)))"

text \<open>\<^verbatim>\<open>Node.accept\<close>. The fuel bounds the nesting of visits and the iterations of each
  while loop; \<open>OutOfFuel\<close> says it did not suffice.\<close>

primrec accept :: "nat \<Rightarrow> (rtobj \<Rightarrow> bool) \<Rightarrow> node \<Rightarrow> state \<Rightarrow> res outcome" where
  "accept 0 tr n st = OutOfFuel"
| "accept (Suc k) tr n st =
     (case cache_get_node n st of
        Some cached_visit \<Rightarrow> call_handler k tr (accept k tr) cached_visit n st
      | None \<Rightarrow> visit (call_handler k tr (accept k tr)) n st)"

text \<open>\<^verbatim>\<open>Interpreter.interpret\<close>: a \<^verbatim>\<open>RecursionError\<close> and an
  \<^verbatim>\<open>InterpreterError\<close> are printed to stderr and \<^verbatim>\<open>None\<close> is returned; any other
  exception propagates.\<close>

definition interpret_ast :: "nat \<Rightarrow> (rtobj \<Rightarrow> bool) \<Rightarrow> node \<Rightarrow> state \<Rightarrow> res outcome" where
  "interpret_ast k tr ast st =
     (case accept k tr ast st of
        Done r st' \<Rightarrow> Done r st'
      | Raise e st' \<Rightarrow>
          (case e of
             HostError h \<Rightarrow> Raise e st'
           | _ \<Rightarrow> Done RNone (st'\<lparr>stderr := stderr st' @ [e]\<rparr>))
      | OutOfFuel \<Rightarrow> OutOfFuel
      | Unmodelled \<Rightarrow> Unmodelled)"


section \<open>Observing a run\<close>

definition result_of :: "'a outcome \<Rightarrow> 'a option" where
  "result_of m = (case m of Done r st \<Rightarrow> Some r | _ \<Rightarrow> None)"

text \<open>The runtime object a run returned, read in the heap it left.\<close>

definition value_of :: "res outcome \<Rightarrow> rtobj option" where
  "value_of m =
     (case m of
        Done r st \<Rightarrow> (case r of RObj a \<Rightarrow> Some (heap st a) | _ \<Rightarrow> None)
      | _ \<Rightarrow> None)"

definition raised :: "'a outcome \<Rightarrow> exn option" where
  "raised m = (case m of Raise e st \<Rightarrow> Some e | _ \<Rightarrow> None)"

definition final_state :: "'a outcome \<Rightarrow> state option" where
  "final_state m = (case m of Done r st \<Rightarrow> Some st | Raise e st \<Rightarrow> Some st | _ \<Rightarrow> None)"

definition output_of :: "'a outcome \<Rightarrow> out list" where
  "output_of m = (case final_state m of Some st \<Rightarrow> stdout st | None \<Rightarrow> [])"

definition errors_of :: "'a outcome \<Rightarrow> exn list" where
  "errors_of m = (case final_state m of Some st \<Rightarrow> stderr st | None \<Rightarrow> [])"

definition break_flag_of :: "'a outcome \<Rightarrow> bool option" where
  "break_flag_of m = map_option break_flag (final_state m)"

text \<open>A run after another, as two statements of one body would be.\<close>

definition after :: "'a outcome \<Rightarrow> (state \<Rightarrow> 'b outcome) \<Rightarrow> 'b outcome" where
  "after m f = and_then m (\<lambda>r st. f st)"

section \<open>Example programs\<close>

text \<open>An expression as the grammar nests it: expr, simple expression, term, factor. The
  node identities \<open>i\<close> to \<open>i + 4\<close> are used.\<close>

definition expr_of :: "nat \<Rightarrow> node \<Rightarrow> node" where
  "expr_of i leaf =
     Expr i (SimpleExpr (i + 1) (Term (i + 2) (Factor (i + 3) leaf None) None None) None None)
       None None"

definition num :: "nat \<Rightarrow> int \<Rightarrow> node" where
  "num i n = expr_of i (NumericLiteral (i + 4) (PInt n))"

definition str :: "nat \<Rightarrow> string \<Rightarrow> node" where
  "str i s = expr_of i (StringLiteral (i + 4) s)"

definition true_expr :: "nat \<Rightarrow> node" where
  "true_expr i = expr_of i (BooleanLiteral (i + 4) True)"

definition print_str :: "nat \<Rightarrow> string \<Rightarrow> node" where
  "print_str i s = Print i (Args (i + 1) [str (i + 2) s]) False"

text \<open>\<^verbatim>\<open>func five() { return 5 }\<close> and the program body \<^verbatim>\<open>five()\<close>.\<close>

definition five_func :: node where
  "five_func = FuncDef 1 ''five'' None (Body 2 [Return 3 (Some (num 4 5))])"

definition five_body :: node where
  "five_body = Body 10 [Call 11 ''five'' None]"

definition five_program :: node where
  "five_program = Program 0 False [five_func] (Some five_body)"

text \<open>\<^verbatim>\<open>func inner() { if true { if true { return 5 } } }\<close>, and
  \<^verbatim>\<open>func outer() { if true { return 5 } }\<close> with one level of if.\<close>

definition nested_func :: node where
  "nested_func =
     FuncDef 1 ''inner'' None
       (Body 2 [If 3 (true_expr 4) (Some (Body 9
          [If 10 (true_expr 11) (Some (Body 16 [Return 17 (Some (num 18 5))])) [] None]))
          [] None])"

definition single_func :: node where
  "single_func =
     FuncDef 31 ''outer'' None
       (Body 32 [If 33 (true_expr 34) (Some (Body 39 [Return 40 (Some (num 41 5))])) [] None])"

text \<open>\<^verbatim>\<open>for i in 0..3 { break }  print "after"\<close> and
  \<^verbatim>\<open>while true { break }  print "after"\<close>.\<close>

definition for_break_body :: node where
  "for_break_body =
     Body 1 [For 2 ''i'' (num 3 0) (num 8 3) (Some (Body 13 [Break 14])), print_str 20 ''after'']"

definition while_break_body :: node where
  "while_break_body =
     Body 1 [While 2 (true_expr 3) (Some (Body 13 [Break 14])), print_str 20 ''after'']"

text \<open>\<^verbatim>\<open>func one(a) { return 1 }\<close>, the call \<^verbatim>\<open>one()\<close> and the call
  \<^verbatim>\<open>one(7, 8)\<close>.\<close>

definition one_func :: node where
  "one_func =
     FuncDef 1 ''one'' (Some (Args 2 [Identifier 3 ''a''])) (Body 4 [Return 5 (Some (num 6 1))])"

definition one_call_no_args :: node where
  "one_call_no_args = Call 20 ''one'' None"

definition one_call_two_args :: node where
  "one_call_two_args = Call 30 ''one'' (Some (Args 31 [num 32 7, num 37 8]))"



text \<open>\<^verbatim>\<open>a[2]\<close> (an array allocated by size) and
  \<^verbatim>\<open>if a[0] { print "truthy" } else { print "falsy" }\<close>.\<close>

definition null_array :: node where
  "null_array = ArrayDef 1 ''a'' (Some (num 2 2)) None"

definition null_condition :: node where
  "null_condition = expr_of 11 (ArrayAccess 15 ''a'' (num 16 0))"

definition truthy_branch :: node where
  "truthy_branch = Body 21 [print_str 22 ''truthy'']"

definition falsy_branch :: node where
  "falsy_branch = Body 30 [print_str 31 ''falsy'']"

definition null_if :: node where
  "null_if = If 10 null_condition (Some truthy_branch) [] (Some falsy_branch)"

definition null_if_body :: node where
  "null_if_body = Body 0 [null_array, null_if]"

text \<open>\<^verbatim>\<open>func hello() { print "hi" }\<close>, whose body evaluates to no value, and
  \<^verbatim>\<open>func loud() { print "hi"  return 5 }\<close>; each called twice.\<close>

definition hello_func :: node where
  "hello_func = FuncDef 1 ''hello'' None (Body 2 [print_str 3 ''hi''])"

definition loud_func :: node where
  "loud_func = FuncDef 1 ''loud'' None (Body 2 [print_str 3 ''hi'', Return 10 (Some (num 11 5))])"

definition twice :: "string \<Rightarrow> node" where
  "twice f = Body 20 [Call 21 f None, Call 22 f None]"

text \<open>The state in which \<^verbatim>\<open>visit_call\<close> reaches its line 394 when \<open>f\<close> is called from
  the global scope of \<open>st\<close> without arguments.\<close>

definition at_line_394 :: "string \<Rightarrow> state \<Rightarrow> state" where
  "at_line_394 f st =
     new_environment f (level (envs st global_env) + 1) (Some global_env)
       (st\<lparr>recursion_count := recursion_count st + 1\<rparr>)"

text \<open>\<^verbatim>\<open>for i in 0..3 { print i }\<close> and \<^verbatim>\<open>for i in 3..0 { print i }\<close>.\<close>

definition print_i :: node where
  "print_i = Body 13 [Print 14 (Args 15 [expr_of 16 (Identifier 20 ''i'')]) False]"

definition for_up :: node where
  "for_up = For 2 ''i'' (num 3 0) (num 8 3) (Some print_i)"

definition for_down :: node where
  "for_down = For 2 ''i'' (num 3 3) (num 8 0) (Some print_i)"

section \<open>Lowering the visitor depth\<close>

text \<open>
  For the comparison of the cached path of \<^verbatim>\<open>accept\<close> with the full path of
  \<^verbatim>\<open>visit\<close>: a state with its visitor depth lowered by \<open>d\<close>, an outcome with the
  depth of its state lowered, and \<open>sim d m m'\<close>: the run \<open>m\<close> raised the
  \<^verbatim>\<open>RecursionError\<close> of the depth guard, or \<open>m'\<close> is \<open>m\<close> with the depth lowered.
\<close>

definition lower :: "int \<Rightarrow> state \<Rightarrow> state" where
  "lower d st = st\<lparr>visitor_depth := visitor_depth st - d\<rparr>"

definition lower_out :: "int \<Rightarrow> 'a outcome \<Rightarrow> 'a outcome" where
  "lower_out d m =
     (case m of Done v st \<Rightarrow> Done v (lower d st) | Raise e st \<Rightarrow> Raise e (lower d st)
      | OutOfFuel \<Rightarrow> OutOfFuel | Unmodelled \<Rightarrow> Unmodelled)"

definition sim :: "int \<Rightarrow> 'a outcome \<Rightarrow> 'a outcome \<Rightarrow> bool" where
  "sim d m m' = ((\<exists>st. m = Raise RecursionError st) \<or> m' = lower_out d m)"

definition acc_ok :: "int \<Rightarrow> (node \<Rightarrow> state \<Rightarrow> res outcome) \<Rightarrow> bool" where
  "acc_ok d acc = (\<forall>n st. sim d (acc n st) (acc n (lower d st)))"

named_theorems sim_intro



section \<open>Claims\<close>

subsection \<open>Runs that contradict the documented behaviour\<close>

text \<open>
  C1. The claim: \<^verbatim>\<open>interpret\<close> returns the runtime value of the last evaluated statement
  of the program body. The code: \<^verbatim>\<open>visit_program\<close> drops what the body returned, so
  \<^verbatim>\<open>interpret\<close> returns \<^verbatim>\<open>None\<close>. For the program
  \<^verbatim>\<open>func five() { return 5 }  five()\<close> nothing is raised and nothing is printed to stderr,
  the body evaluates to the number 5, and \<^verbatim>\<open>interpret\<close> returns \<^verbatim>\<open>None\<close>.
\<close>

theorem interpret_drops_body_value:
  "result_of (interpret_ast 20 tr five_program (init_state [])) = Some RNone
   \<and> errors_of (interpret_ast 20 tr five_program (init_state [])) = []
   \<and> value_of (after (accept 20 tr five_func (init_state [])) (accept 20 tr five_body))
       = Some (RunTimeObject LNumber (PInt 5))"
  by code_simp

text \<open>
  C2. The claim: a return nested in two levels of conditional bodies gives the call its
  value. The code: \<^verbatim>\<open>__handle_conditional_execution\<close> hands a value on only if the
  last statement of its body is a return, so the outer if drops what the inner if returned.
  The call \<^verbatim>\<open>inner()\<close> returns \<^verbatim>\<open>None\<close>, while \<^verbatim>\<open>outer()\<close>, with one level of if,
  returns 5.
\<close>

theorem nested_return_value_lost:
  "result_of (after (accept 30 tr nested_func (init_state [])) (accept 30 tr (Call 50 ''inner'' None)))
     = Some RNone
   \<and> value_of (after (accept 30 tr single_func (init_state [])) (accept 30 tr (Call 50 ''outer'' None)))
     = Some (RunTimeObject LNumber (PInt 5))"
  by code_simp

text \<open>
  C3. The claim: while loops and for loops both clear \<^verbatim>\<open>break_flag\<close>. The code:
  \<^verbatim>\<open>visit_while\<close> does, \<^verbatim>\<open>visit_for\<close> never reads the flag. After
  \<^verbatim>\<open>for i in 0..3 { break }\<close> the flag is still set and the statement after the loop is
  skipped; after \<^verbatim>\<open>while true { break }\<close> the flag is clear and the statement runs.
\<close>

theorem for_loop_leaves_break_flag:
  "break_flag_of (accept 30 tr for_break_body (init_state [])) = Some True
   \<and> output_of (accept 30 tr for_break_body (init_state [])) = []
   \<and> break_flag_of (accept 30 tr while_break_body (init_state [])) = Some False
   \<and> output_of (accept 30 tr while_break_body (init_state [])) = [Out (PStr ''after'')]"
  by code_simp

text \<open>
  C6. The claim: a call with no argument to a function with parameters fails with a
  RUNTIME error. The code: the arity is compared only under \<^verbatim>\<open>if node.args:\<close>, so
  \<^verbatim>\<open>one()\<close>, whose \<^verbatim>\<open>args\<close> is \<^verbatim>\<open>None\<close>, runs the body of
  \<^verbatim>\<open>func one(a) { return 1 }\<close> and returns 1, while \<^verbatim>\<open>one(7, 8)\<close> raises the RUNTIME
  error.
\<close>

theorem call_without_args_skips_arity_check:
  "value_of (after (accept 30 tr one_func (init_state [])) (accept 30 tr one_call_no_args))
     = Some (RunTimeObject LNumber (PInt 1))
   \<and> raised (after (accept 30 tr one_func (init_state [])) (accept 30 tr one_call_two_args))
     = Some (InterpreterError RUNTIME ''Invalid number of arguments provided'')"
  by code_simp

subsection \<open>Reading an outcome\<close>

lemma done_eq: "result_of m = Some r \<Longrightarrow> m = Done r (the (final_state m))"
  by (cases m) (simp_all add: result_of_def final_state_def)

subsection \<open>Division and comparison\<close>








subsection \<open>The truth value of a condition\<close>

lemma truthy_payloads:
  "truthy v = (v \<noteq> PStr [] \<and> v \<noteq> PInt 0 \<and> v \<noteq> PFloat 0 \<and> v \<noteq> PBool False)"
  by (cases v) auto

lemma if_by_payload:
  "acc expr st = Done (RObj a) st1 \<longrightarrow>
     visit_if acc expr body_node eis eb st =
       (if truthy (val (heap st1 a)) then handle_conditional_execution acc body_node st1
        else else_if_loop acc eis eb st1)"
  by (simp add: visit_if_def and_then_def obj_of_def)

lemma sized_array_holds_null:
  "acc sz st = Done (RObj p) st1 \<and> label (heap st1 p) \<noteq> LIdentifier
     \<and> py_int (val (heap st1 p)) = Some n \<and> current_env st1 = Some e \<longrightarrow>
   visit_array_def acc name (Some sz) ivs st =
     Done RNone
       (insert_array name
          \<lparr>declared_size = val (heap st1 p), vals = replicate (nat n) (RObj (next_obj st1))\<rparr> e
          (store_object (RunTimeObject LNull (PStr ''null'')) st1))"
  by (simp add: visit_array_def_def and_then_def obj_of_def test_for_identifier_def alloc_def
        cur_env_def store_object_def)

text \<open>
  C9, as the claim states it: an element of a size-allocated array used as an if condition
  behaves as falsy. The code: \<^verbatim>\<open>visit_array_def\<close> fills the array with
  \<^verbatim>\<open>RunTimeObject("null", value="null")\<close> and \<^verbatim>\<open>visit_if\<close> tests
  \<^verbatim>\<open>condition.value\<close>, the non-empty string \<^verbatim>\<open>"null"\<close>. After \<^verbatim>\<open>a[2]\<close> the
  condition \<^verbatim>\<open>a[0]\<close> evaluates to the null value, and
  \<^verbatim>\<open>if a[0] { print "truthy" } else { print "falsy" }\<close> prints \<^verbatim>\<open>truthy\<close>.
\<close>

theorem null_element_is_truthy_counterexample:
  "value_of (after (accept 30 (\<lambda>ob. True) null_array (init_state []))
               (accept 30 (\<lambda>ob. True) null_condition))
     = Some (RunTimeObject LNull (PStr ''null''))
   \<and> output_of (accept 30 (\<lambda>ob. True) null_if_body (init_state [])) = [Out (PStr ''truthy'')]"
  by code_simp

text \<open>
  C9, amended. An if takes its branch by the truth value of the payload of its condition:
  the empty string, the number 0 (int or float) and false are falsy, every other payload
  is truthy. An array defined with a size is filled with one null object, whose payload is
  the string \<^verbatim>\<open>"null"\<close>: that payload is truthy, so an element of such an array used as
  an if condition selects the if branch.
\<close>

theorem if_condition_by_payload:
  "truthy v = (v \<noteq> PStr [] \<and> v \<noteq> PInt 0 \<and> v \<noteq> PFloat 0 \<and> v \<noteq> PBool False)
   \<and> (acc expr st = Done (RObj a) st1 \<longrightarrow>
        visit_if acc expr body_node eis eb st =
          (if truthy (val (heap st1 a)) then handle_conditional_execution acc body_node st1
           else else_if_loop acc eis eb st1))
   \<and> (acc' sz st' = Done (RObj p) st2 \<and> label (heap st2 p) \<noteq> LIdentifier
         \<and> py_int (val (heap st2 p)) = Some n \<and> current_env st2 = Some e \<longrightarrow>
       visit_array_def acc' name (Some sz) ivs st' =
         Done RNone
           (insert_array name
              \<lparr>declared_size = val (heap st2 p), vals = replicate (nat n) (RObj (next_obj st2))\<rparr> e
              (store_object (RunTimeObject LNull (PStr ''null'')) st2)))
   \<and> truthy (val (RunTimeObject LNull (PStr ''null'')))"
  using truthy_payloads if_by_payload sized_array_holds_null
  by (simp add: RunTimeObject_def)

theorem if_condition_by_payload_witness:
  "output_of
     (visit_if (accept 20 (\<lambda>ob. True)) null_condition (Some truthy_branch) [] (Some falsy_branch)
        (the (final_state (accept 20 (\<lambda>ob. True) null_array (init_state [])))))
   = [Out (PStr ''truthy'')]"
proof -
  let ?acc = "accept 20 (\<lambda>ob. True)"
  let ?st = "the (final_state (?acc null_array (init_state [])))"
  let ?st1 = "the (final_state (?acc null_condition ?st))"
  have "result_of (?acc null_condition ?st) = Some (RObj 1)"
    by code_simp
  then have c: "?acc null_condition ?st = Done (RObj 1) ?st1"
    by (rule done_eq)
  have t: "truthy (val (heap ?st1 1))"
    by code_simp
  have "visit_if ?acc null_condition (Some truthy_branch) [] (Some falsy_branch) ?st
          = handle_conditional_execution ?acc (Some truthy_branch) ?st1"
    using if_condition_by_payload [of _ ?acc null_condition ?st 1 ?st1] c t by simp
  moreover have "output_of (handle_conditional_execution ?acc (Some truthy_branch) ?st1)
                   = [Out (PStr ''truthy'')]"
    by code_simp
  ultimately show ?thesis by simp
qed

subsection \<open>The call cache\<close>

lemma call_cache_miss:
  "st1 = st\<lparr>current_env := Some le\<rparr> \<and> k = env_hash le st1 \<and> cache_get_call k st1 = RNone \<longrightarrow>
   call_function acc old le fs st =
     and_then (acc (body fs) st1) (\<lambda>result s.
       Done result ((cache_put_call k result s)\<lparr>current_env := Some old,
                       recursion_count := recursion_count s - 1\<rparr>))"
  by (cases "acc (body fs) (st\<lparr>current_env := Some le\<rparr>)")
     (auto simp: call_function_def and_then_def cache_put_call_def Let_def)

lemma call_cache_hit:
  "st1 = st\<lparr>current_env := Some le\<rparr> \<and> k = env_hash le st1 \<and> cache_get_call k st1 \<noteq> RNone \<longrightarrow>
   call_function acc old le fs st =
     Done (cache_get_call k st1)
       (st1\<lparr>current_env := Some old, recursion_count := recursion_count st1 - 1\<rparr>)"
  by (auto simp: call_function_def and_then_def Let_def)

lemma null_entry_is_miss:
  "cache_get_call k (cache_put_call k RNone s) = RNone
   \<and> (cache_get_call k s = RNone) = (call_cache s k = None \<or> call_cache s k = Some RNone)"
  by (simp add: cache_get_call_def cache_put_call_def split: option.splits)

lemma null_result_not_served:
  "st1 = st\<lparr>current_env := Some le\<rparr> \<and> k = env_hash le st1
     \<and> call_function acc old le fs st = Done RNone s' \<longrightarrow>
   cache_get_call k s' = RNone"
  by (cases "acc (body fs) (st\<lparr>current_env := Some le\<rparr>)")
     (auto simp: call_function_def and_then_def cache_put_call_def cache_get_call_def Let_def
           split: if_splits)

text \<open>
  C10. Lines 394 to 405 of \<^verbatim>\<open>visit_call\<close>, with \<open>k\<close> the fingerprint of the local
  environment. If the cache answers \<^verbatim>\<open>None\<close> for \<open>k\<close>, the body is visited and its result
  stored under \<open>k\<close>. The cache answers \<^verbatim>\<open>None\<close> both when it has no entry and when the
  entry is \<^verbatim>\<open>None\<close>, and after a call that returned \<^verbatim>\<open>None\<close> it still answers
  \<^verbatim>\<open>None\<close> for \<open>k\<close>: the next call with this fingerprint visits the body again. If the
  cache answers an object, the call returns it and the body is not visited: the outcome
  does not depend on \<open>acc\<close>.
\<close>

theorem null_results_are_not_cached:
  "(st1 = st\<lparr>current_env := Some le\<rparr> \<and> k = env_hash le st1 \<and> cache_get_call k st1 = RNone \<longrightarrow>
      call_function acc old le fs st =
        and_then (acc (body fs) st1) (\<lambda>result s.
          Done result ((cache_put_call k result s)\<lparr>current_env := Some old,
                          recursion_count := recursion_count s - 1\<rparr>)))
   \<and> (st1 = st\<lparr>current_env := Some le\<rparr> \<and> k = env_hash le st1
         \<and> call_function acc old le fs st = Done RNone s' \<longrightarrow>
       cache_get_call k s' = RNone)
   \<and> cache_get_call k (cache_put_call k RNone s) = RNone
   \<and> (cache_get_call k s = RNone) = (call_cache s k = None \<or> call_cache s k = Some RNone)
   \<and> (st1 = st\<lparr>current_env := Some le\<rparr> \<and> k = env_hash le st1 \<and> cache_get_call k st1 \<noteq> RNone \<longrightarrow>
       call_function acc old le fs st =
         Done (cache_get_call k st1)
           (st1\<lparr>current_env := Some old, recursion_count := recursion_count st1 - 1\<rparr>))"
  using call_cache_miss [where ?st1.0 = st1 and st = st and le = le and k = k and acc = acc and old = old and fs = fs]
        null_result_not_served [where ?st1.0 = st1 and st = st and le = le and k = k and acc = acc and old = old and fs = fs and s' = s']
        null_entry_is_miss [of k s]
        call_cache_hit [where ?st1.0 = st1 and st = st and le = le and k = k and acc = acc and old = old and fs = fs]
  by blast
theorem null_results_are_not_cached_witness:
  "output_of
     (call_function (accept 20 (\<lambda>ob. True)) 0 1 \<lparr>params = [], body = Body 2 [print_str 3 ''hi'']\<rparr>
        (at_line_394 ''hello''
           (the (final_state (accept 20 (\<lambda>ob. True) hello_func (init_state []))))))
     = [Out (PStr ''hi'')]
   \<and> output_of (after (accept 30 (\<lambda>ob. True) hello_func (init_state []))
                  (accept 30 (\<lambda>ob. True) (twice ''hello'')))
     = [Out (PStr ''hi''), Out (PStr ''hi'')]
   \<and> value_of
       (call_function (accept 20 (\<lambda>ob. True)) 0 2
          \<lparr>params = [], body = Body 2 [print_str 3 ''hi'', Return 10 (Some (num 11 5))]\<rparr>
          (at_line_394 ''loud''
             (the (final_state (after (accept 20 (\<lambda>ob. True) loud_func (init_state []))
                                  (accept 20 (\<lambda>ob. True) (Call 21 ''loud'' None)))))))
     = Some (RunTimeObject LNumber (PInt 5))
   \<and> output_of (after (accept 30 (\<lambda>ob. True) loud_func (init_state []))
                  (accept 30 (\<lambda>ob. True) (twice ''loud'')))
     = [Out (PStr ''hi'')]"
proof -
  let ?acc = "accept 20 (\<lambda>ob. True)"
  let ?hello = "\<lparr>params = [], body = Body 2 [print_str 3 ''hi'']\<rparr>"
  let ?loud = "\<lparr>params = [], body = Body 2 [print_str 3 ''hi'', Return 10 (Some (num 11 5))]\<rparr>"
  let ?sh = "at_line_394 ''hello'' (the (final_state (?acc hello_func (init_state []))))"
  let ?sl = "at_line_394 ''loud''
               (the (final_state (after (?acc loud_func (init_state []))
                                    (?acc (Call 21 ''loud'' None)))))"
  let ?sh1 = "?sh\<lparr>current_env := Some 1\<rparr>"
  let ?sl1 = "?sl\<lparr>current_env := Some 2\<rparr>"
  have miss: "cache_get_call (env_hash 1 ?sh1) ?sh1 = RNone"
    by code_simp
  have hit: "cache_get_call (env_hash 2 ?sl1) ?sl1 \<noteq> RNone"
    by code_simp
  have 1: "call_function ?acc 0 1 ?hello ?sh =
             and_then (?acc (body ?hello) ?sh1) (\<lambda>result s.
               Done result ((cache_put_call (env_hash 1 ?sh1) result s)\<lparr>current_env := Some 0,
                               recursion_count := recursion_count s - 1\<rparr>))"
    using null_results_are_not_cached
            [where st = ?sh and le = 1 and ?st1.0 = ?sh1 and k = "env_hash 1 ?sh1"
               and acc = ?acc and old = 0 and fs = ?hello] miss
    by blast
  have 2: "call_function ?acc 0 2 ?loud ?sl =
             Done (cache_get_call (env_hash 2 ?sl1) ?sl1)
               (?sl1\<lparr>current_env := Some 0, recursion_count := recursion_count ?sl1 - 1\<rparr>)"
    using null_results_are_not_cached
            [where st = ?sl and le = 2 and ?st1.0 = ?sl1 and k = "env_hash 2 ?sl1"
               and acc = ?acc and old = 0 and fs = ?loud] hit
    by blast
  have a: "output_of (call_function ?acc 0 1 ?hello ?sh) = [Out (PStr ''hi'')]"
    unfolding 1 by code_simp
  have b: "value_of (call_function ?acc 0 2 ?loud ?sl) = Some (RunTimeObject LNumber (PInt 5))"
    unfolding 2 by code_simp
  have c: "output_of (after (accept 30 (\<lambda>ob. True) hello_func (init_state []))
                        (accept 30 (\<lambda>ob. True) (twice ''hello'')))
             = [Out (PStr ''hi''), Out (PStr ''hi'')]"
    by code_simp
  have d: "output_of (after (accept 30 (\<lambda>ob. True) loud_func (init_state []))
                        (accept 30 (\<lambda>ob. True) (twice ''loud'')))
             = [Out (PStr ''hi'')]"
    by code_simp
  from a c b d show ?thesis by blast
qed

subsection \<open>The for loop\<close>









subsection \<open>The visitor depth does not influence a run\<close>

text \<open>Nothing but the guard of \<^verbatim>\<open>visit\<close> reads the visitor depth: a run from a state
  with a lower depth is the same run with the depth lowered, unless the run from the higher
  depth raised the guard's \<^verbatim>\<open>RecursionError\<close>.\<close>

lemma lower_fields [simp]:
  "heap (lower d st) = heap st" "next_obj (lower d st) = next_obj st"
  "envs (lower d st) = envs st" "next_env (lower d st) = next_env st"
  "current_env (lower d st) = current_env st"
  "conditional_flag (lower d st) = conditional_flag st"
  "break_flag (lower d st) = break_flag st" "continue_flag (lower d st) = continue_flag st"
  "recursion_count (lower d st) = recursion_count st"
  "node_cache (lower d st) = node_cache st" "call_cache (lower d st) = call_cache st"
  "stdin (lower d st) = stdin st" "stdout (lower d st) = stdout st"
  "stderr (lower d st) = stderr st"
  "visitor_depth (lower d st) = visitor_depth st - d"
  by (simp_all add: lower_def)

lemma lower_updates [simp]:
  "(lower d st)\<lparr>heap := h\<rparr> = lower d (st\<lparr>heap := h\<rparr>)"
  "(lower d st)\<lparr>next_obj := no\<rparr> = lower d (st\<lparr>next_obj := no\<rparr>)"
  "(lower d st)\<lparr>envs := es\<rparr> = lower d (st\<lparr>envs := es\<rparr>)"
  "(lower d st)\<lparr>next_env := ne\<rparr> = lower d (st\<lparr>next_env := ne\<rparr>)"
  "(lower d st)\<lparr>current_env := ce\<rparr> = lower d (st\<lparr>current_env := ce\<rparr>)"
  "(lower d st)\<lparr>conditional_flag := b1\<rparr> = lower d (st\<lparr>conditional_flag := b1\<rparr>)"
  "(lower d st)\<lparr>break_flag := b2\<rparr> = lower d (st\<lparr>break_flag := b2\<rparr>)"
  "(lower d st)\<lparr>continue_flag := b3\<rparr> = lower d (st\<lparr>continue_flag := b3\<rparr>)"
  "(lower d st)\<lparr>recursion_count := rc\<rparr> = lower d (st\<lparr>recursion_count := rc\<rparr>)"
  "(lower d st)\<lparr>node_cache := nc\<rparr> = lower d (st\<lparr>node_cache := nc\<rparr>)"
  "(lower d st)\<lparr>call_cache := cc\<rparr> = lower d (st\<lparr>call_cache := cc\<rparr>)"
  "(lower d st)\<lparr>stdin := si\<rparr> = lower d (st\<lparr>stdin := si\<rparr>)"
  "(lower d st)\<lparr>stdout := so\<rparr> = lower d (st\<lparr>stdout := so\<rparr>)"
  "(lower d st)\<lparr>stderr := se\<rparr> = lower d (st\<lparr>stderr := se\<rparr>)"
  by (simp_all add: lower_def)

lemma lower_out_simps [simp]:
  "lower_out d (Done v st) = Done v (lower d st)"
  "lower_out d (Raise e st) = Raise e (lower d st)"
  "lower_out d OutOfFuel = OutOfFuel"
  "lower_out d Unmodelled = Unmodelled"
  by (simp_all add: lower_out_def)

lemma sim_lower [sim_intro]: "sim d m (lower_out d m)"
  by (simp add: sim_def)

lemma sim_leaf [sim_intro]:
  "sim d (Done v st) (Done v (lower d st))"
  "sim d (Raise e st) (Raise e (lower d st))"
  "sim d OutOfFuel OutOfFuel"
  "sim d Unmodelled Unmodelled"
  by (simp_all add: sim_def)

lemma sim_bind [sim_intro]:
  assumes "sim d m m'" and "\<And>v st. sim d (f v st) (f' v (lower d st))"
  shows "sim d (and_then m f) (and_then m' f')"
proof (cases "\<exists>st. m = Raise RecursionError st")
  case True
  then show ?thesis by (auto simp: sim_def and_then_def)
next
  case False
  with assms(1) have m': "m' = lower_out d m" by (simp add: sim_def)
  show ?thesis
  proof (cases m)
    case (Done v st)
    with m' assms(2) [of v st] show ?thesis by (simp add: and_then_def)
  qed (simp_all add: m' and_then_def sim_def)
qed

lemma sim_acc: "acc_ok d acc \<Longrightarrow> sim d (acc n st) (acc n (lower d st))"
  by (simp add: acc_ok_def)

lemma sim_if [sim_intro]:
  "(c \<Longrightarrow> sim d a a') \<Longrightarrow> (\<not> c \<Longrightarrow> sim d b b') \<Longrightarrow>
   sim d (if c then a else b) (if c then a' else b')"
  by simp

lemma sim_option [sim_intro]:
  "(x = None \<Longrightarrow> sim d a a') \<Longrightarrow> (\<And>y. x = Some y \<Longrightarrow> sim d (b y) (b' y)) \<Longrightarrow>
   sim d (case x of None \<Rightarrow> a | Some y \<Rightarrow> b y) (case x of None \<Rightarrow> a' | Some y \<Rightarrow> b' y)"
  by (cases x) simp_all

lemma obj_of_lower [simp]: "obj_of r (lower d st) = lower_out d (obj_of r st)"
  by (simp add: obj_of_def split: res.splits)


lemma sim_res [sim_intro]:
  "(x = RNone \<Longrightarrow> sim d a a') \<Longrightarrow> (\<And>y. x = RObj y \<Longrightarrow> sim d (b y) (b' y)) \<Longrightarrow>
   (\<And>z. x = RList z \<Longrightarrow> sim d (c z) (c' z)) \<Longrightarrow>
   sim d (case x of RNone \<Rightarrow> a | RObj y \<Rightarrow> b y | RList z \<Rightarrow> c z)
         (case x of RNone \<Rightarrow> a' | RObj y \<Rightarrow> b' y | RList z \<Rightarrow> c' z)"
  by (cases x) simp_all

lemma sim_pyval [sim_intro]:
  "(\<And>y. x = PInt y \<Longrightarrow> sim d (a y) (a' y)) \<Longrightarrow> (\<And>y. x = PFloat y \<Longrightarrow> sim d (b y) (b' y)) \<Longrightarrow>
   (\<And>y. x = PStr y \<Longrightarrow> sim d (c y) (c' y)) \<Longrightarrow> (\<And>y. x = PBool y \<Longrightarrow> sim d (e y) (e' y)) \<Longrightarrow>
   sim d (case x of PInt y \<Rightarrow> a y | PFloat y \<Rightarrow> b y | PStr y \<Rightarrow> c y | PBool y \<Rightarrow> e y)
         (case x of PInt y \<Rightarrow> a' y | PFloat y \<Rightarrow> b' y | PStr y \<Rightarrow> c' y | PBool y \<Rightarrow> e' y)"
  by (cases x) simp_all

lemma sim_list [sim_intro]:
  "(x = [] \<Longrightarrow> sim d a a') \<Longrightarrow> (\<And>y ys. x = y # ys \<Longrightarrow> sim d (b y ys) (b' y ys)) \<Longrightarrow>
   sim d (case x of [] \<Rightarrow> a | y # ys \<Rightarrow> b y ys) (case x of [] \<Rightarrow> a' | y # ys \<Rightarrow> b' y ys)"
  by (cases x) simp_all


lemma sim_node_body [sim_intro]:
  "(\<And>i ss. x = Body i ss \<Longrightarrow> sim d (a i ss) (a' i ss)) \<Longrightarrow>
   ((\<forall>i ss. x \<noteq> Body i ss) \<Longrightarrow> sim d b b') \<Longrightarrow>
   sim d (case x of Body i ss \<Rightarrow> a i ss | _ \<Rightarrow> b) (case x of Body i ss \<Rightarrow> a' i ss | _ \<Rightarrow> b')"
  by (cases x) simp_all

lemma state_functions_lower [simp]:
  "store_object ob (lower d st) = lower d (store_object ob st)"
  "insert_variable x v e (lower d st) = lower d (insert_variable x v e st)"
  "insert_array x a e (lower d st) = lower d (insert_array x a e st)"
  "insert_function x ps b e (lower d st) = lower d (insert_function x ps b e st)"
  "cache_put_node n h (lower d st) = lower d (cache_put_node n h st)"
  "cache_put_call k r (lower d st) = lower d (cache_put_call k r st)"
  "new_environment x l p (lower d st) = lower d (new_environment x l p st)"
  "set_iterator it i (lower d st) = lower d (set_iterator it i st)"
  by (simp_all add: store_object_def insert_variable_def insert_array_def insert_function_def
        cache_put_node_def cache_put_call_def new_environment_def set_iterator_def)

lemma bind_params_lower [simp]:
  "bind_params le ps vs (lower d st) = lower d (bind_params le ps vs st)"
  by (induction ps arbitrary: vs st) simp_all

lemma state_reads_lower [simp]:
  "env_hash e (lower d st) = env_hash e st"
  "cache_get_call k (lower d st) = cache_get_call k st"
  "cache_get_node n (lower d st) = cache_get_node n st"
  "cache_has_key n (lower d st) = cache_has_key n st"
  by (simp_all add: env_hash_def cache_get_call_def cache_get_node_def cache_has_key_def)

lemma res_truthy_lower [simp]: "res_truthy tr r (lower d st) = res_truthy tr r st"
  by (cases r) (simp_all add: res_truthy_def)

lemma primitives_lower [simp]:
  "alloc ob (lower d st) = lower_out d (alloc ob st)"
  "cur_env (lower d st) = lower_out d (cur_env st)"
  "lookup_variable x w e (lower d st) = lower_out d (lookup_variable x w e st)"
  "lookup_array x e (lower d st) = lower_out d (lookup_array x e st)"
  "lookup_function x e (lower d st) = lower_out d (lookup_function x e st)"
  "check_for_stack_overflow (lower d st) = lower_out d (check_for_stack_overflow st)"
  "new_object l v (lower d st) = lower_out d (new_object l v st)"
  "throw_invalid_operation_err (lower d st) = lower_out d (throw_invalid_operation_err st)"
  "throw_unary_type_err (lower d st) = lower_out d (throw_unary_type_err st)"
  "visit_break (lower d st) = lower_out d (visit_break st)"
  "visit_continue (lower d st) = lower_out d (visit_continue st)"
  "visit_input m (lower d st) = lower_out d (visit_input m st)"
  by (simp_all add: alloc_def cur_env_def lookup_variable_def lookup_array_def
        lookup_function_def check_for_stack_overflow_def new_object_def
        throw_invalid_operation_err_def throw_unary_type_err_def visit_break_def
        visit_continue_def visit_input_def Let_def split: option.splits list.splits)

lemma eval_lower [simp]:
  "eval_numbers a op b (lower d st) = lower_out d (eval_numbers a op b st)"
  "eval_strings a op b (lower d st) = lower_out d (eval_strings a op b st)"
  by (simp_all add: eval_numbers_def eval_strings_def split: option.splits pyval.splits)

lemma test_for_identifier_sim [sim_intro]:
  "sim d (test_for_identifier r st) (test_for_identifier r (lower d st))"
  unfolding test_for_identifier_def
  by (auto intro!: sim_intro)

lemma handle_additive_sim [sim_intro]:
  "sim d (handle_additive_expressions l r op st) (handle_additive_expressions l r op (lower d st))"
  unfolding handle_additive_expressions_def
  by (auto intro!: sim_intro)

lemma handle_multiplicative_sim [sim_intro]:
  "sim d (handle_multiplicative_expressions l r op st)
         (handle_multiplicative_expressions l r op (lower d st))"
  unfolding handle_multiplicative_expressions_def
  by (auto intro!: sim_intro)

lemma handle_relational_sim [sim_intro]:
  "sim d (handle_relational_expressions l r op st)
         (handle_relational_expressions l r op (lower d st))"
  unfolding handle_relational_expressions_def
  by (auto intro!: sim_intro)

lemma collect_params_sim [sim_intro]:
  "sim d (collect_params rs ps st) (collect_params rs ps (lower d st))"
  by (induction rs arbitrary: ps st) (auto intro!: sim_intro)

lemma print_loop_sim [sim_intro]:
  "sim d (print_loop rs st) (print_loop rs (lower d st))"
  by (induction rs arbitrary: st) (auto intro!: sim_intro)

lemma accept_all_sim [sim_intro]:
  assumes "acc_ok d acc"
  shows "sim d (accept_all acc ns st) (accept_all acc ns (lower d st))"
  by (induction ns arbitrary: st) (auto intro!: sim_intro sim_acc [OF assms])

lemma visit_functions_sim [sim_intro]:
  assumes "acc_ok d acc"
  shows "sim d (visit_functions acc fs st) (visit_functions acc fs (lower d st))"
  by (induction fs arbitrary: st) (auto intro!: sim_intro sim_acc [OF assms])

lemma hce_sim [sim_intro]:
  assumes "acc_ok d acc"
  shows "sim d (handle_conditional_execution acc b st) (handle_conditional_execution acc b (lower d st))"
  unfolding handle_conditional_execution_def
  by (cases b) (auto intro!: sim_intro sim_acc [OF assms] split: node.splits)

lemma else_if_loop_sim [sim_intro]:
  assumes "acc_ok d acc"
  shows "sim d (else_if_loop acc eis eb st) (else_if_loop acc eis eb (lower d st))"
  by (induction eis arbitrary: st) (auto intro!: sim_intro assms sim_acc [OF assms])

lemma body_loop_sim [sim_intro]:
  assumes "acc_ok d acc"
  shows "sim d (body_loop acc ss l st) (body_loop acc ss l (lower d st))"
  by (induction ss arbitrary: st l) (auto intro!: sim_intro sim_acc [OF assms] simp: Let_def)

lemma while_loop_sim [sim_intro]:
  assumes "acc_ok d acc"
  shows "sim d (while_loop k tr acc e b c st) (while_loop k tr acc e b c (lower d st))"
  by (induction k arbitrary: c st) (auto intro!: sim_intro assms sim_acc [OF assms])

lemma for_loop_sim [sim_intro]:
  assumes "acc_ok d acc"
  shows "sim d (for_loop tr acc it b xs st) (for_loop tr acc it b xs (lower d st))"
  by (induction xs arbitrary: st) (auto intro!: sim_intro assms)

lemma validate_range_node_sim [sim_intro]:
  assumes "acc_ok d acc"
  shows "sim d (validate_range_node acc n st) (validate_range_node acc n (lower d st))"
  unfolding validate_range_node_def
  by (auto intro!: sim_intro sim_acc [OF assms])

lemma bind_arguments_sim [sim_intro]:
  assumes "acc_ok d acc"
  shows "sim d (bind_arguments acc a le fs st) (bind_arguments acc a le fs (lower d st))"
  unfolding bind_arguments_def
  by (auto intro!: sim_intro sim_acc [OF assms])

lemma call_function_sim [sim_intro]:
  assumes "acc_ok d acc"
  shows "sim d (call_function acc old le fs st) (call_function acc old le fs (lower d st))"
  unfolding call_function_def
  by (auto intro!: sim_intro sim_acc [OF assms] simp: Let_def)

lemma handle_expressions_sim [sim_intro]:
  assumes "acc_ok d acc"
  shows "sim d (handle_expressions acc l op r st) (handle_expressions acc l op r (lower d st))"
  unfolding handle_expressions_def
  by (auto intro!: sim_intro sim_acc [OF assms] simp: Let_def)













end
